theory Spec2Isabelle
  imports Complex_Main "HOL-Library.Word" "HOL-Library.Multiset"
begin

section \<open>Voice agent backend: a shallow embedding\<close>

text \<open>
  The development follows the Python sources under \<^verbatim>\<open>backend/app\<close>: the audio validator
  (\<^verbatim>\<open>services/audio_processor.py\<close>), the confidence estimator
  (\<^verbatim>\<open>services/speech_to_text.py\<close>), the speech synthesiser
  (\<^verbatim>\<open>services/text_to_speech.py\<close>), the conversation store
  (\<^verbatim>\<open>services/session_manager.py\<close>), the chat service
  (\<^verbatim>\<open>services/chat_service.py\<close>) and the WebSocket endpoint (\<^verbatim>\<open>api/websocket.py\<close>).
  External engines (audio decoder, Whisper, chat completion, TTS, base64, uuid, clock, the
  row order of the database) are
  parameters; every \<^verbatim>\<open>raise\<close> is a value \<open>Inl\<close> of a sum type. Log calls are omitted.
\<close>

subsection \<open>Strings and bytes\<close>

type_synonym bytes = "8 word list"

text \<open>
  A Python \<^verbatim>\<open>str\<close> is modelled as a \<open>string\<close> with one \<open>char\<close> per code point, which
  covers the code points up to U+00FF. \<^verbatim>\<open>str.lower()\<close> on that range maps A-Z and the
  Latin-1 capitals (U+00C0..U+00DE without U+00D7) 32 places up.
\<close>

definition lower_char :: "char \<Rightarrow> char" where
  "lower_char c =
     (let n = (of_char c :: nat)
      in if (65 \<le> n \<and> n \<le> 90) \<or> (192 \<le> n \<and> n \<le> 222 \<and> n \<noteq> 215)
         then char_of (n + 32) else c)"

definition lower :: "string \<Rightarrow> string" where
  "lower s = map lower_char s"

text \<open>\<^verbatim>\<open>str.isspace\<close> on the same range; \<^verbatim>\<open>s.strip()\<close> removes such characters at both ends.\<close>

definition isspace :: "char \<Rightarrow> bool" where
  "isspace c =
     (let n = (of_char c :: nat)
      in (9 \<le> n \<and> n \<le> 13) \<or> (28 \<le> n \<and> n \<le> 32) \<or> n = 133 \<or> n = 160)"

definition strip :: "string \<Rightarrow> string" where
  "strip s = rev (dropWhile isspace (rev (dropWhile isspace s)))"

text \<open>\<^verbatim>\<open>p in s\<close> for strings: \<open>p\<close> occurs in \<open>s\<close> as a contiguous substring.\<close>

fun startswith :: "'a list \<Rightarrow> 'a list \<Rightarrow> bool" where
  "startswith s [] = True"
| "startswith [] (p # ps) = False"
| "startswith (c # cs) (p # ps) = (c = p \<and> startswith cs ps)"

fun str_in :: "'a list \<Rightarrow> 'a list \<Rightarrow> bool" where
  "str_in p [] = (p = [])"
| "str_in p (c # cs) = (startswith (c # cs) p \<or> str_in p cs)"

subsection \<open>Exceptions (\<^verbatim>\<open>core/exceptions.py\<close>)\<close>

text \<open>
  \<open>PlainException\<close> stands for every exception that is not a \<^verbatim>\<open>VoiceAgentException\<close>
  (\<^verbatim>\<open>AttributeError\<close>, \<^verbatim>\<open>IndexError\<close>, \<^verbatim>\<open>binascii.Error\<close>, transport errors of a client
  library). An exception carries its class, its \<^verbatim>\<open>error_code\<close> and \<^verbatim>\<open>str(e)\<close>.
\<close>

datatype exc_class =
    AudioProcessingError | SpeechToTextError | TextToSpeechError | GPTServiceError
  | SessionError | RateLimitError | PlainException

datatype exn = Exn (exn_class: exc_class) (error_code: "string option") (exn_str: string)

definition is_voice_agent_exception :: "exn \<Rightarrow> bool" where
  "is_voice_agent_exception e = (exn_class e \<noteq> PlainException)"

subsection \<open>Configuration (\<^verbatim>\<open>core/config.py\<close>)\<close>

record audio_settings =
  max_size_mb :: int
  supported_formats :: "string list"
  sample_rate :: int

record openai_settings =
  model :: string
  whisper_model :: string
  tts_model :: string
  tts_voice :: string

record session_settings =
  timeout_minutes :: int
  max_conversation_history :: int

definition default_audio_settings :: audio_settings where
  "default_audio_settings =
     \<lparr>max_size_mb = 25,
      supported_formats = [''wav'', ''mp3'', ''m4a'', ''webm'', ''mp4''],
      sample_rate = 16000\<rparr>"

definition default_openai_settings :: openai_settings where
  "default_openai_settings =
     \<lparr>model = ''gpt-oss:20b'', whisper_model = ''whisper-1'',
      tts_model = ''tts-1'', tts_voice = ''alloy''\<rparr>"

definition default_session_settings :: session_settings where
  "default_session_settings = \<lparr>timeout_minutes = 30, max_conversation_history = 10\<rparr>"

subsection \<open>Audio validation (\<^verbatim>\<open>AudioProcessorService.validate_audio\<close>)\<close>

text \<open>
  \<open>from_file\<close> is \<^verbatim>\<open>AudioSegment.from_file\<close>: it either raises (\<open>Inl\<close> of the exception text)
  or yields a segment, of which only \<^verbatim>\<open>len(audio_segment)\<close>, its length in milliseconds,
  is used. The two quotients are Python true divisions of an \<^verbatim>\<open>int\<close>; they are compared
  here as exact rationals, which agrees with the float comparison for every length below
  \<open>2^53\<close> (division by \<open>2^20\<close> is exact, and no integer other than 300000 divided by 1000
  rounds to 300). The numbers that the source formats into the two messages are left out
  of the message text.
\<close>

type_synonym decoder = "bytes \<Rightarrow> string \<Rightarrow> string + nat"

definition validate_audio :: "audio_settings \<Rightarrow> decoder \<Rightarrow> bytes \<Rightarrow> string \<Rightarrow> exn + bool" where
  "validate_audio st from_file audio_data format =
     (if lower format \<notin> set (supported_formats st)
      then Inl (Exn AudioProcessingError (Some ''UNSUPPORTED_FORMAT'')
                  (''Unsupported audio format: '' @ format))
      else
        let size_mb = (of_nat (length audio_data) / (1024 * 1024) :: rat)
        in if size_mb > of_int (max_size_mb st)
           then Inl (Exn AudioProcessingError (Some ''FILE_TOO_LARGE'') ''Audio file too large'')
           else
             (case from_file audio_data (lower format) of
                Inl err \<Rightarrow>
                  Inl (Exn AudioProcessingError (Some ''VALIDATION_ERROR'')
                         (''Audio validation failed: '' @ err))
              | Inr len_ms \<Rightarrow>
                  let duration_seconds = (of_nat len_ms / 1000 :: rat)
                  in if duration_seconds > 300
                     then Inl (Exn AudioProcessingError (Some ''AUDIO_TOO_LONG'') ''Audio too long'')
                     else Inr True))"

text \<open>The two conditions the source tests first, and the error code of a result.\<close>

definition format_supported :: "audio_settings \<Rightarrow> string \<Rightarrow> bool" where
  "format_supported st format = (lower format \<in> set (supported_formats st))"

definition oversized :: "audio_settings \<Rightarrow> bytes \<Rightarrow> bool" where
  "oversized st audio_data =
     ((of_nat (length audio_data) / (1024 * 1024) :: rat) > of_int (max_size_mb st))"

definition validation_code :: "exn + bool \<Rightarrow> string option" where
  "validation_code r = (case r of Inl e \<Rightarrow> error_code e | Inr _ \<Rightarrow> None)"

subsection \<open>Python floats\<close>

text \<open>
  A Python \<^verbatim>\<open>float\<close> is an IEEE 754 double. A finite double is modelled by the rational
  it denotes; \<open>fl\<close> rounds a rational to the nearest double, ties to the even significand
  (53 significant bits), so \<open>fl (1 / 10)\<close> is what the literal \<^verbatim>\<open>0.1\<close> denotes and
  \<open>fl_add\<close> is \<^verbatim>\<open>+\<close> on floats. \<open>binade n q\<close> is the exponent \<open>e\<close> with
  \<open>2^e \<le> q < 2^(e+1)\<close>, found in at most \<open>n\<close> halvings or doublings; 1100 steps cover
  the normal range of doubles. Subnormal results and overflow are outside the model: the
  sums below stay between 0.5 and 1.
\<close>

definition nearest_even :: "int \<Rightarrow> rat \<Rightarrow> int" where
  "nearest_even f q =
     (if q - of_int f < 1 / 2 then f
      else if 1 / 2 < q - of_int f then f + 1
      else if even f then f else f + 1)"

definition round_half_even :: "rat \<Rightarrow> int" where
  "round_half_even q = nearest_even \<lfloor>q\<rfloor> q"

fun binade :: "nat \<Rightarrow> rat \<Rightarrow> int" where
  "binade 0 q = 0"
| "binade (Suc n) q =
     (if 2 \<le> q then binade n (q / 2) + 1
      else if q < 1 then binade n (q * 2) - 1
      else 0)"

definition pow2 :: "int \<Rightarrow> rat" where
  "pow2 k = (if 0 \<le> k then 2 ^ nat k else 1 / 2 ^ nat (- k))"

definition round_to_ulp :: "rat \<Rightarrow> rat \<Rightarrow> rat" where
  "round_to_ulp ulp a = of_int (round_half_even (a / ulp)) * ulp"

definition fl :: "rat \<Rightarrow> rat" where
  "fl q = (if q = 0 then 0 else sgn q * round_to_ulp (pow2 (binade 1100 \<bar>q\<bar> - 52)) \<bar>q\<bar>)"

definition fl_add :: "rat \<Rightarrow> rat \<Rightarrow> rat" where
  "fl_add x y = fl (x + y)"

text \<open>
  The values a feature can hold: a finite double, an infinity or NaN (numpy yields NaN for
  the mean of no samples). Every comparison with NaN is false.
\<close>

datatype pyfloat = Fin rat | PosInf | NegInf | NaN

definition float_gt :: "pyfloat \<Rightarrow> rat \<Rightarrow> bool" where
  "float_gt x c = (case x of Fin q \<Rightarrow> c < q | PosInf \<Rightarrow> True | NegInf \<Rightarrow> False | NaN \<Rightarrow> False)"

definition float_lt :: "pyfloat \<Rightarrow> rat \<Rightarrow> bool" where
  "float_lt x c = (case x of Fin q \<Rightarrow> q < c | PosInf \<Rightarrow> False | NegInf \<Rightarrow> True | NaN \<Rightarrow> False)"

subsection \<open>Confidence estimation (\<^verbatim>\<open>SpeechToTextService._estimate_confidence\<close>)\<close>

text \<open>
  The two entries of the feature dictionary that the estimator reads; \<open>None\<close> is a missing
  key, for which \<^verbatim>\<open>.get\<close> supplies the default (0 and 1.0).
\<close>

record audio_features =
  rms_energy :: "pyfloat option"
  silence_ratio :: "pyfloat option"

definition get_default :: "'a option \<Rightarrow> 'a \<Rightarrow> 'a" where
  "get_default v d = (case v of None \<Rightarrow> d | Some x \<Rightarrow> x)"

text \<open>\<^verbatim>\<open>if b: confidence += inc\<close>\<close>

definition add_if :: "bool \<Rightarrow> rat \<Rightarrow> rat \<Rightarrow> rat" where
  "add_if b inc confidence = (if b then fl_add confidence inc else confidence)"

text \<open>The four statements of the estimator in their order, once the conditions are known.\<close>

definition confidence_score :: "bool \<Rightarrow> bool \<Rightarrow> bool \<Rightarrow> bool \<Rightarrow> rat" where
  "confidence_score has_text no_artifact good_signal little_silence =
     min 1 (max 0
       (add_if little_silence (fl (1 / 10))
         (add_if good_signal (fl (1 / 10))
           (add_if no_artifact (fl (1 / 10))
             (add_if has_text (fl (2 / 10))
               (fl (5 / 10)))))))"

definition has_text :: "string \<Rightarrow> bool" where
  "has_text text = (length (strip text) > 0)"

definition has_artifact :: "string \<Rightarrow> bool" where
  "has_artifact text =
     list_ex (\<lambda>phrase. str_in phrase (lower text)) [''[inaudible]'', ''[unclear]'', ''...'']"

definition good_signal :: "audio_features \<Rightarrow> bool" where
  "good_signal af = float_gt (get_default (rms_energy af) (Fin 0)) (fl (1 / 100))"

definition little_silence :: "audio_features \<Rightarrow> bool" where
  "little_silence af = float_lt (get_default (silence_ratio af) (Fin 1)) (fl (5 / 10))"

definition estimate_confidence :: "string \<Rightarrow> audio_features \<Rightarrow> rat" where
  "estimate_confidence text af =
     confidence_score (has_text text) (\<not> has_artifact text) (good_signal af) (little_silence af)"

text \<open>
  The score as the specification words it, in exact arithmetic: base 0.5, plus 0.2, plus
  0.1 three times, clamped to the unit interval.
\<close>

definition spec_confidence :: "bool \<Rightarrow> bool \<Rightarrow> bool \<Rightarrow> bool \<Rightarrow> rat" where
  "spec_confidence nonempty clean strong low_silence =
     min 1 (max 0
       (5 / 10 + (if nonempty then 2 / 10 else 0) + (if clean then 1 / 10 else 0)
        + (if strong then 1 / 10 else 0) + (if low_silence then 1 / 10 else 0)))"

subsection \<open>Python values that reach a \<^verbatim>\<open>str\<close> parameter\<close>

text \<open>
  Python checks no annotation at run time: a parameter declared \<^verbatim>\<open>text: str\<close> receives
  whatever the caller passes. The callers in this code base pass a string, \<^verbatim>\<open>None\<close> or a
  tuple.
\<close>

datatype pyval = PNone | PStr string | PTuple "pyval list"

definition truthy :: "string option \<Rightarrow> bool" where
  "truthy v = (case v of None \<Rightarrow> False | Some s \<Rightarrow> s \<noteq> [])"

subsection \<open>Speech synthesis (\<^verbatim>\<open>TextToSpeechService.synthesize_speech\<close>)\<close>

text \<open>
  What a client library call can raise: \<^verbatim>\<open>httpx.HTTPStatusError\<close> with the status code and
  the response text, or any other exception with its text.
\<close>

datatype client_error = HTTPStatusError nat string | ClientError string

text \<open>
  The speech engine: \<open>speech_create\<close> is the remote call
  \<^verbatim>\<open>client.audio.speech...create(model, voice, input)\<close> followed by reading the content;
  \<open>preprocess_text\<close> is \<^verbatim>\<open>_preprocess_text\<close>, a whitespace and abbreviation rewriting of the
  text that no property below depends on.
\<close>

record speech_engine =
  preprocess_text :: "string \<Rightarrow> string"
  speech_create :: "string \<Rightarrow> string \<Rightarrow> string \<Rightarrow> client_error + bytes"

definition available_voices :: "string list" where
  "available_voices = [''alloy'', ''echo'', ''fable'', ''onyx'', ''nova'', ''shimmer'']"

text \<open>
  \<^verbatim>\<open>voice = voice or default\<close>, then the default again when the voice is not an available
  one.
\<close>

definition select_voice :: "openai_settings \<Rightarrow> string option \<Rightarrow> string" where
  "select_voice st voice =
     (let v = (if truthy voice then the voice else tts_voice st)
      in if v \<notin> set available_voices then tts_voice st else v)"

text \<open>
  Every exception raised inside the \<^verbatim>\<open>try\<close>, the service's own \<^verbatim>\<open>TextToSpeechError\<close> for
  a long or empty text included, is not an \<^verbatim>\<open>HTTPStatusError\<close> and so reaches the last
  handler, which raises \<^verbatim>\<open>TextToSpeechError\<close> with code \<^verbatim>\<open>SYNTHESIS_ERROR\<close>.
\<close>

definition synthesis_error :: "string \<Rightarrow> exn" where
  "synthesis_error msg =
     Exn TextToSpeechError (Some ''SYNTHESIS_ERROR'') (''Speech synthesis failed: '' @ msg)"

definition speech_outcome :: "client_error + bytes \<Rightarrow> exn + bytes" where
  "speech_outcome r =
     (case r of
        Inr audio_data \<Rightarrow> Inr audio_data
      | Inl (HTTPStatusError status_code response_text) \<Rightarrow>
          if status_code = 429
          then Inl (Exn RateLimitError (Some ''RATE_LIMIT_EXCEEDED'')
                      ''OpenAI API rate limit exceeded'')
          else Inl (Exn TextToSpeechError (Some ''API_ERROR'')
                      (''OpenAI API error: '' @ response_text))
      | Inl (ClientError msg) \<Rightarrow> Inl (synthesis_error msg))"

text \<open>
  \<^verbatim>\<open>len(text)\<close> is defined for a string and for a tuple and raises \<^verbatim>\<open>TypeError\<close> for
  \<^verbatim>\<open>None\<close>; \<^verbatim>\<open>text.strip()\<close> exists for a string only and raises \<^verbatim>\<open>AttributeError\<close> for a
  tuple. (The exception texts are given without their quotation marks.)
\<close>

definition synthesize_speech ::
  "openai_settings \<Rightarrow> speech_engine \<Rightarrow> pyval \<Rightarrow> string option \<Rightarrow> exn + bytes" where
  "synthesize_speech st engine text voice =
     (let voice' = select_voice st voice
      in case text of
           PNone \<Rightarrow> Inl (synthesis_error ''object of type NoneType has no len()'')
         | PTuple items \<Rightarrow>
             if length items > 4096
             then Inl (synthesis_error ''Text too long for TTS (max 4096 characters)'')
             else Inl (synthesis_error ''tuple object has no attribute strip'')
         | PStr s \<Rightarrow>
             if length s > 4096
             then Inl (synthesis_error ''Text too long for TTS (max 4096 characters)'')
             else if strip s = []
             then Inl (synthesis_error ''Empty text provided for TTS'')
             else speech_outcome
                    (speech_create engine (tts_model st) voice' (preprocess_text engine s)))"

subsection \<open>Conversation store (\<^verbatim>\<open>models/database.py\<close>, \<^verbatim>\<open>SessionManagerService\<close>)\<close>

datatype message_type = USER | ASSISTANT | SYSTEM

datatype conversation_status = ACTIVE | COMPLETED | EXPIRED

record conversation =
  c_id :: string
  c_status :: conversation_status
  c_created_at :: nat
  c_updated_at :: nat

text \<open>A row of table \<^verbatim>\<open>messages\<close>; the opaque \<^verbatim>\<open>extra_data\<close> column is left out.\<close>

record message =
  m_id :: string
  m_session_id :: string
  m_type :: message_type
  m_content :: string
  m_timestamp :: nat

text \<open>
  The two tables in insertion order, together with the number of identifiers and clock
  readings drawn so far. \<^verbatim>\<open>uuid.uuid4()\<close> and \<^verbatim>\<open>datetime.utcnow()\<close> are the oracles
  \<open>uuid4\<close> and \<open>utcnow\<close> of the runtime: the \<open>n\<close>-th call yields \<open>uuid4 rt n\<close>, and the
  clock need not be monotonic. Timestamps are points of time as natural numbers.

  \<open>order_by_timestamp_desc rt k rows\<close> is the order in which the database delivers \<open>rows\<close>
  for \<^verbatim>\<open>ORDER BY timestamp DESC LIMIT k\<close>. The query names no second sort key, so the
  order of rows of equal timestamp is the database's choice and may depend on the plan it
  picks for the limit; it is a parameter here as well.
\<close>

record runtime =
  uuid4 :: "nat \<Rightarrow> string"
  utcnow :: "nat \<Rightarrow> nat"
  order_by_timestamp_desc :: "int \<Rightarrow> message list \<Rightarrow> message list"


record store =
  conversations :: "conversation list"
  messages :: "message list"
  uuid_calls :: nat
  clock_reads :: nat

definition empty_store :: store where
  "empty_store = \<lparr>conversations = [], messages = [], uuid_calls = 0, clock_reads = 0\<rparr>"

text \<open>
  The database itself is taken to be available: an operation fails only where a constraint
  of the schema is violated (primary key, \<^verbatim>\<open>nullable=False\<close>) or the service raises. The
  two texts stand for what the driver reports.
\<close>

definition unique_violation :: string where
  "unique_violation = ''UNIQUE constraint failed''"

definition not_null_violation :: string where
  "not_null_violation = ''NOT NULL constraint failed: messages.content''"

definition session_exists :: "store \<Rightarrow> string \<Rightarrow> bool" where
  "session_exists db session_id = (session_id \<in> c_id ` set (conversations db))"

definition create_session :: "runtime \<Rightarrow> store \<Rightarrow> (exn + string) \<times> store" where
  "create_session rt db =
     (let session_id = uuid4 rt (uuid_calls db);
          created = utcnow rt (clock_reads db);
          updated = utcnow rt (clock_reads db + 1);
          db1 = db\<lparr>uuid_calls := uuid_calls db + 1, clock_reads := clock_reads db + 2\<rparr>
      in if session_exists db session_id
         then (Inl (Exn SessionError (Some ''SESSION_CREATION_ERROR'')
                      (''Failed to create session: '' @ unique_violation)), db1)
         else (Inr session_id,
               db1\<lparr>conversations := conversations db @
                      [\<lparr>c_id = session_id, c_status = ACTIVE,
                        c_created_at = created, c_updated_at = updated\<rparr>]\<rparr>))"

definition touch :: "string \<Rightarrow> nat \<Rightarrow> conversation \<Rightarrow> conversation" where
  "touch session_id now c = (if c_id c = session_id then c\<lparr>c_updated_at := now\<rparr> else c)"

text \<open>
  \<^verbatim>\<open>add_message\<close>: one transaction that checks the session, inserts the message and
  updates the session's timestamp. \<open>content\<close> is \<open>None\<close> when the caller passes
  \<^verbatim>\<open>None\<close>, which column \<^verbatim>\<open>content\<close> (\<^verbatim>\<open>nullable=False\<close>) rejects at the flush.
\<close>

definition add_message ::
  "runtime \<Rightarrow> store \<Rightarrow> string \<Rightarrow> message_type \<Rightarrow> string option \<Rightarrow> (exn + string) \<times> store" where
  "add_message rt db session_id message_type content =
     (let message_id = uuid4 rt (uuid_calls db);
          db1 = db\<lparr>uuid_calls := uuid_calls db + 1\<rparr>
      in if \<not> session_exists db session_id
         then (Inl (Exn SessionError (Some ''SESSION_NOT_FOUND'')
                      (''Session '' @ session_id @ '' not found'')), db1)
         else
           let timestamp = utcnow rt (clock_reads db);
               now = utcnow rt (clock_reads db + 1);
               db2 = db1\<lparr>clock_reads := clock_reads db + 2\<rparr>
           in case content of
                None \<Rightarrow>
                  (Inl (Exn SessionError (Some ''MESSAGE_ADDITION_ERROR'')
                          (''Failed to add message: '' @ not_null_violation)), db2)
              | Some text \<Rightarrow>
                  if message_id \<in> m_id ` set (messages db)
                  then (Inl (Exn SessionError (Some ''MESSAGE_ADDITION_ERROR'')
                               (''Failed to add message: '' @ unique_violation)), db2)
                  else (Inr message_id,
                        db2\<lparr>messages := messages db @
                               [\<lparr>m_id = message_id, m_session_id = session_id,
                                 m_type = message_type, m_content = text,
                                 m_timestamp = timestamp\<rparr>],
                             conversations := map (touch session_id now) (conversations db)\<rparr>))"

text \<open>
  \<^verbatim>\<open>get_conversation_history\<close>: \<^verbatim>\<open>limit or default\<close>, then the query
  \<^verbatim>\<open>WHERE session_id = ... ORDER BY timestamp DESC LIMIT limit\<close>, then \<^verbatim>\<open>reversed\<close>.
  \<open>limit\<close> and the configured default are Python integers; \<^verbatim>\<open>limit or default\<close> takes the
  default when \<open>limit\<close> is \<^verbatim>\<open>None\<close> or 0. SQLite, the configured database, reads a
  negative \<^verbatim>\<open>LIMIT\<close> as no limit. The database being available, the handler
  \<^verbatim>\<open>except Exception\<close> of the function is not entered.
\<close>

definition effective_limit :: "session_settings \<Rightarrow> int option \<Rightarrow> int" where
  "effective_limit st limit =
     (case limit of
        None \<Rightarrow> max_conversation_history st
      | Some n \<Rightarrow> if n \<noteq> 0 then n else max_conversation_history st)"

definition session_messages :: "store \<Rightarrow> string \<Rightarrow> message list" where
  "session_messages db session_id = filter (\<lambda>m. m_session_id m = session_id) (messages db)"

definition sql_limit :: "int \<Rightarrow> 'a list \<Rightarrow> 'a list" where
  "sql_limit k rows = (if k < 0 then rows else take (nat k) rows)"

definition get_conversation_history ::
  "runtime \<Rightarrow> session_settings \<Rightarrow> store \<Rightarrow> string \<Rightarrow> int option \<Rightarrow> message list" where
  "get_conversation_history rt st db session_id limit =
     (let limit = effective_limit st limit;
          messages_db =
            sql_limit limit
              (order_by_timestamp_desc rt limit (session_messages db session_id))
      in rev messages_db)"

subsection \<open>Chat service (\<^verbatim>\<open>ChatService.generate_response\<close>)\<close>

text \<open>
  The completion call: the model name and the role/content pairs go in; it raises (\<open>Inl\<close>
  of the exception text) or returns the content of each choice (\<^verbatim>\<open>Optional[str]\<close> in the
  client library) and the token count.
\<close>

record completion =
  choices :: "string option list"
  total_tokens :: "nat option"

record chat_engine =
  system_prompt :: string
  chat_create :: "string \<Rightarrow> (string \<times> string) list \<Rightarrow> string + completion"

text \<open>
  The slice \<^verbatim>\<open>xs[-n:]\<close> for a Python integer \<open>n\<close>: the last \<open>n\<close> elements when \<open>n\<close> is
  positive, everything when \<open>n\<close> is 0 (\<^verbatim>\<open>xs[0:]\<close>), and all but the first \<open>-n\<close> elements
  when \<open>n\<close> is negative.
\<close>

definition py_last :: "int \<Rightarrow> 'a list \<Rightarrow> 'a list" where
  "py_last n xs =
     (if 0 < n then drop (length xs - nat n) xs else drop (nat (- n)) xs)"

definition role_of :: "message \<Rightarrow> string" where
  "role_of msg = (if m_type msg = USER then ''user'' else ''assistant'')"

text \<open>
  The handler \<^verbatim>\<open>except Exception as e\<close> of \<open>generate_response\<close>: it sees the text of
  whatever was raised.
\<close>

definition generation_failure :: "string \<Rightarrow> exn" where
  "generation_failure str_e =
     (if str_in ''rate_limit'' (lower str_e)
      then Exn RateLimitError (Some ''RATE_LIMIT_EXCEEDED'') ''OpenAI API rate limit exceeded''
      else Exn GPTServiceError (Some ''RESPONSE_GENERATION_ERROR'')
             (''Failed to generate response: '' @ str_e))"

text \<open>
  The list that \<open>generate_response\<close> sends to the completion call: the system prompt,
  the recent history, the current message.
\<close>

definition chat_messages ::
  "runtime \<Rightarrow> session_settings \<Rightarrow> chat_engine \<Rightarrow> string \<Rightarrow> string \<Rightarrow> store
     \<Rightarrow> (string \<times> string) list" where
  "chat_messages rt sst engine message session_id db =
     (let conversation_history = get_conversation_history rt sst db session_id None
      in [(''system'', system_prompt engine)]
         @ map (\<lambda>msg. (role_of msg, m_content msg))
             (py_last (max_conversation_history sst) conversation_history)
         @ [(''user'', message)])"

text \<open>
  \<open>generate_response\<close> (without the optional \<^verbatim>\<open>context\<close>). The two messages are stored
  by two calls of \<open>add_message\<close>, each a transaction of its own, after the completion call
  has returned. The result is the pair \<^verbatim>\<open>(assistant_response, assistant_message_id)\<close>.
\<close>

definition generate_response ::
  "runtime \<Rightarrow> session_settings \<Rightarrow> openai_settings \<Rightarrow> chat_engine \<Rightarrow> string \<Rightarrow> string \<Rightarrow> store
     \<Rightarrow> (exn + (string option \<times> string)) \<times> store" where
  "generate_response rt sst ost engine message session_id db =
     (case chat_create engine (model ost) (chat_messages rt sst engine message session_id db) of
        Inl str_e \<Rightarrow> (Inl (generation_failure str_e), db)
      | Inr response \<Rightarrow>
          (case choices response of
             [] \<Rightarrow> (Inl (generation_failure ''list index out of range''), db)
           | assistant_response # _ \<Rightarrow>
               (case add_message rt db session_id USER (Some message) of
                  (Inl e, db1) \<Rightarrow> (Inl (generation_failure (exn_str e)), db1)
                | (Inr user_message_id, db1) \<Rightarrow>
                    (case add_message rt db1 session_id ASSISTANT assistant_response of
                       (Inl e, db2) \<Rightarrow> (Inl (generation_failure (exn_str e)), db2)
                     | (Inr assistant_message_id, db2) \<Rightarrow>
                         (Inr (assistant_response, assistant_message_id), db2)))))"

subsection \<open>Services and settings as the endpoint receives them\<close>

text \<open>
  \<open>sv_transcribe_audio\<close> is \<^verbatim>\<open>SpeechToTextService.transcribe_audio\<close>, the transcription
  port: it raises or returns the dictionary of which the endpoint reads \<^verbatim>\<open>text\<close>,
  \<^verbatim>\<open>confidence\<close> and \<^verbatim>\<open>language\<close>. \<open>sv_b64decode\<close> is \<^verbatim>\<open>base64.b64decode\<close>, which raises
  \<^verbatim>\<open>binascii.Error\<close> (\<open>Inl\<close> of its text) on wrong padding.
\<close>

record transcription =
  tr_text :: string
  tr_confidence :: "rat option"
  tr_language :: "string option"

record services =
  sv_runtime :: runtime
  sv_from_file :: decoder
  sv_transcribe_audio :: "bytes \<Rightarrow> exn + transcription"
  sv_chat :: chat_engine
  sv_speech :: speech_engine
  sv_b64decode :: "string \<Rightarrow> string + bytes"

record settings =
  audio :: audio_settings
  openai :: openai_settings
  session :: session_settings

definition default_settings :: settings where
  "default_settings =
     \<lparr>audio = default_audio_settings, openai = default_openai_settings,
      session = default_session_settings\<rparr>"

subsection \<open>WebSocket manager (\<^verbatim>\<open>WebSocketManager\<close>)\<close>

text \<open>
  The two dictionaries of the manager: connection id to socket (a handle), and session id
  to connection id.
\<close>

record manager =
  active_connections :: "string \<rightharpoonup> nat"
  session_connections :: "string \<rightharpoonup> string"

definition empty_manager :: manager where
  "empty_manager = \<lparr>active_connections = Map.empty, session_connections = Map.empty\<rparr>"

definition connect :: "manager \<Rightarrow> nat \<Rightarrow> string \<Rightarrow> manager" where
  "connect m websocket connection_id =
     m\<lparr>active_connections := (active_connections m)(connection_id \<mapsto> websocket)\<rparr>"

definition disconnect :: "manager \<Rightarrow> string \<Rightarrow> manager" where
  "disconnect m connection_id =
     m\<lparr>active_connections := (active_connections m)(connection_id := None),
       session_connections :=
         (\<lambda>sid. if session_connections m sid = Some connection_id then None
                else session_connections m sid)\<rparr>"

definition associate_session :: "manager \<Rightarrow> string \<Rightarrow> string \<Rightarrow> manager" where
  "associate_session m sid connection_id =
     m\<lparr>session_connections := (session_connections m)(sid \<mapsto> connection_id)\<rparr>"

definition get_connection_by_session :: "manager \<Rightarrow> string \<Rightarrow> string option" where
  "get_connection_by_session m sid = session_connections m sid"

text \<open>
  The registry operations a connection performs, in the order the endpoint performs them:
  \<open>Connect\<close> on accepting the socket, \<open>InitializeSession\<close> with the identifier that
  \<open>create_session\<close> returned, \<open>Disconnect\<close> when the socket is gone.
\<close>

datatype registry_op =
    Connect string nat
  | InitializeSession string string
  | Disconnect string

fun apply_op :: "manager \<Rightarrow> registry_op \<Rightarrow> manager" where
  "apply_op m (Connect connection_id websocket) = connect m websocket connection_id"
| "apply_op m (InitializeSession connection_id sid) = associate_session m sid connection_id"
| "apply_op m (Disconnect connection_id) = disconnect m connection_id"

definition run_registry :: "registry_op list \<Rightarrow> manager" where
  "run_registry ops = foldl apply_op empty_manager ops"

subsection \<open>Events and effects\<close>

text \<open>
  An outbound JSON message, by its \<^verbatim>\<open>type\<close>. \<open>TextResponse\<close> carries whatever value the
  handler puts under \<^verbatim>\<open>text\<close>; \<open>AudioResponse\<close> carries the audio before base64 encoding
  and the format; \<open>ErrorEvent\<close> carries \<^verbatim>\<open>message\<close> and \<^verbatim>\<open>error_code\<close> (\<open>None\<close> when the
  handler sends none).
\<close>

datatype event =
    SessionInitialized string
  | AudioChunkReceived nat bool
  | TranscriptionStarted
  | TranscriptionCompleted string "rat option" "string option"
  | ResponseGenerationStarted
  | TextResponse pyval
  | AudioGenerationStarted
  | AudioResponse bytes string
  | InteractionCompleted
  | Pong
  | ErrorEvent string "string option"

fun event_type :: "event \<Rightarrow> string" where
  "event_type (SessionInitialized _) = ''session_initialized''"
| "event_type (AudioChunkReceived _ _) = ''audio_chunk_received''"
| "event_type TranscriptionStarted = ''transcription_started''"
| "event_type (TranscriptionCompleted _ _ _) = ''transcription_completed''"
| "event_type ResponseGenerationStarted = ''response_generation_started''"
| "event_type (TextResponse _) = ''text_response''"
| "event_type AudioGenerationStarted = ''audio_generation_started''"
| "event_type (AudioResponse _ _) = ''audio_response''"
| "event_type InteractionCompleted = ''interaction_completed''"
| "event_type Pong = ''pong''"
| "event_type (ErrorEvent _ _) = ''error''"

text \<open>
  What a handler does, in order: \<open>Send ev\<close> is a call
  \<^verbatim>\<open>websocket_manager.send_message(connection_id, ev)\<close>, which writes to the socket
  registered under the connection id; \<open>Invoke p\<close> marks the point where the handler awaits
  a method of the transcription, response or synthesis service. Whether the peer receives
  a sent event is not modelled: the manager drops what it cannot deliver.
\<close>

datatype port = TranscriptionPort | ResponsePort | SynthesisPort

datatype effect = Send event | Invoke port

fun sent :: "effect list \<Rightarrow> event list" where
  "sent [] = []"
| "sent (Send ev # effs) = ev # sent effs"
| "sent (Invoke p # effs) = sent effs"

fun invoked :: "effect list \<Rightarrow> port list" where
  "invoked [] = []"
| "invoked (Send ev # effs) = invoked effs"
| "invoked (Invoke p # effs) = p # invoked effs"

subsection \<open>Streaming turn (\<^verbatim>\<open>process_complete_audio\<close>)\<close>

text \<open>
  The two handlers of \<open>process_complete_audio\<close>: a \<^verbatim>\<open>VoiceAgentException\<close> is reported with
  its code, any other exception with a prefixed message and no code.
\<close>

definition error_event :: "exn \<Rightarrow> event" where
  "error_event e =
     (if is_voice_agent_exception e then ErrorEvent (exn_str e) (error_code e)
      else ErrorEvent (''Processing error: '' @ exn_str e) None)"

text \<open>
  The value of \<^verbatim>\<open>response_text = await chat_service.generate_response(...)\<close>: the pair that
  \<open>generate_response\<close> returns, which the endpoint does not unpack.
\<close>

definition pair_value :: "string option \<times> string \<Rightarrow> pyval" where
  "pair_value r =
     PTuple [case fst r of None \<Rightarrow> PNone | Some s \<Rightarrow> PStr s, PStr (snd r)]"

definition process_complete_audio ::
  "services \<Rightarrow> settings \<Rightarrow> bytes list \<Rightarrow> string \<Rightarrow> store \<Rightarrow> effect list \<times> store" where
  "process_complete_audio sv cfg chunks sid db =
     (let combined_audio = concat chunks
      in if combined_audio = [] then ([], db)
         else
           case validate_audio (audio cfg) (sv_from_file sv) combined_audio ''wav'' of
             Inl e \<Rightarrow> ([Send (error_event e)], db)
           | Inr _ \<Rightarrow>
               let effs1 = [Send TranscriptionStarted, Invoke TranscriptionPort]
               in case sv_transcribe_audio sv combined_audio of
                    Inl e \<Rightarrow> (effs1 @ [Send (error_event e)], db)
                  | Inr transcription_result \<Rightarrow>
                      let effs2 = effs1 @
                            [Send (TranscriptionCompleted (tr_text transcription_result)
                                     (tr_confidence transcription_result)
                                     (tr_language transcription_result)),
                             Send ResponseGenerationStarted, Invoke ResponsePort]
                      in case generate_response (sv_runtime sv) (session cfg) (openai cfg)
                                (sv_chat sv) (tr_text transcription_result) sid db of
                           (Inl e, db') \<Rightarrow> (effs2 @ [Send (error_event e)], db')
                         | (Inr r, db') \<Rightarrow>
                             let response_text = pair_value r;
                                 effs3 = effs2 @
                                   [Send (TextResponse response_text),
                                    Send AudioGenerationStarted, Invoke SynthesisPort]
                             in case synthesize_speech (openai cfg) (sv_speech sv)
                                       response_text None of
                                  Inl e \<Rightarrow> (effs3 @ [Send (error_event e)], db')
                                | Inr audio_response \<Rightarrow>
                                    (effs3 @
                                       [Send (AudioResponse audio_response ''mp3''),
                                        Send InteractionCompleted], db'))"

text \<open>The staged events of a turn in the order of the specification.\<close>

definition staged_order :: "string list" where
  "staged_order =
     [''transcription_started'', ''transcription_completed'',
      ''response_generation_started'', ''text_response'', ''audio_generation_started'',
      ''audio_response'', ''interaction_completed'']"

subsection \<open>Message handlers (\<^verbatim>\<open>handle_audio_chunk\<close>, \<^verbatim>\<open>handle_text_message\<close>)\<close>

text \<open>
  An inbound JSON object with the fields the endpoint reads; a missing key is \<open>None\<close>, and
  the two flags are \<open>False\<close> when missing.
\<close>

record message_data =
  md_type :: "string option"
  md_audio_data :: "string option"
  md_is_final :: bool
  md_text :: "string option"
  md_include_audio :: bool
  md_voice :: "string option"

text \<open>
  \<open>handle_audio_chunk\<close> returns its effects, the accumulator (the list it appends to and
  clears in place) and the store. The acknowledgement reports the length of the
  accumulator at that moment, after \<^verbatim>\<open>clear()\<close> when the chunk was final.
\<close>

definition handle_audio_chunk ::
  "services \<Rightarrow> settings \<Rightarrow> message_data \<Rightarrow> bytes list \<Rightarrow> string option \<Rightarrow> store
     \<Rightarrow> effect list \<times> bytes list \<times> store" where
  "handle_audio_chunk sv cfg message_data chunks sid db =
     (if \<not> truthy (md_audio_data message_data)
      then ([Send (ErrorEvent ''No audio data provided'' None)], chunks, db)
      else
        case sv_b64decode sv (the (md_audio_data message_data)) of
          Inl str_e \<Rightarrow>
            ([Send (ErrorEvent (''Audio processing error: '' @ str_e) None)], chunks, db)
        | Inr chunk \<Rightarrow>
            let chunks1 = chunks @ [chunk]
            in if md_is_final message_data \<and> truthy sid
               then
                 case process_complete_audio sv cfg chunks1 (the sid) db of
                   (effs, db') \<Rightarrow>
                     let chunks2 = []
                     in (effs @ [Send (AudioChunkReceived (length chunks2)
                                         (md_is_final message_data))],
                         chunks2, db')
               else ([Send (AudioChunkReceived (length chunks1) (md_is_final message_data))],
                     chunks1, db))"

definition text_error :: "exn \<Rightarrow> event" where
  "text_error e = ErrorEvent (''Text processing error: '' @ exn_str e) None"

definition handle_text_message ::
  "services \<Rightarrow> settings \<Rightarrow> message_data \<Rightarrow> string option \<Rightarrow> store \<Rightarrow> effect list \<times> store" where
  "handle_text_message sv cfg message_data sid db =
     (if \<not> truthy (md_text message_data) \<or> \<not> truthy sid
      then ([Send (ErrorEvent ''No text provided or session not initialized'' None)], db)
      else
        case generate_response (sv_runtime sv) (session cfg) (openai cfg) (sv_chat sv)
               (the (md_text message_data)) (the sid) db of
          (Inl e, db') \<Rightarrow> ([Invoke ResponsePort, Send (text_error e)], db')
        | (Inr r, db') \<Rightarrow>
            let response_text = pair_value r;
                effs = [Invoke ResponsePort, Send (TextResponse response_text)]
            in if md_include_audio message_data
               then
                 let voice = (case md_voice message_data of None \<Rightarrow> ''alloy'' | Some v \<Rightarrow> v)
                 in case synthesize_speech (openai cfg) (sv_speech sv) response_text
                           (Some voice) of
                      Inl e \<Rightarrow> (effs @ [Invoke SynthesisPort, Send (text_error e)], db')
                    | Inr audio_data \<Rightarrow>
                        (effs @ [Invoke SynthesisPort, Send (AudioResponse audio_data ''mp3'')],
                         db')
               else (effs, db'))"

subsection \<open>The endpoint (\<^verbatim>\<open>websocket_endpoint\<close>)\<close>

text \<open>
  The local variables of one connection's coroutine, the shared manager and store, and
  whether the receive loop is still running.
\<close>

record endpoint_state =
  es_session_id :: "string option"
  es_audio_chunks :: "bytes list"
  es_manager :: manager
  es_store :: store
  es_open :: bool

definition accept_connection :: "manager \<Rightarrow> store \<Rightarrow> nat \<Rightarrow> string \<Rightarrow> endpoint_state" where
  "accept_connection m db websocket connection_id =
     \<lparr>es_session_id = None, es_audio_chunks = [],
      es_manager = connect m websocket connection_id, es_store = db, es_open = True\<rparr>"

text \<open>
  One iteration of the receive loop for a frame that parsed to a JSON object. An
  exception that escapes the branch (only \<open>create_session\<close> can raise here) reaches the
  outer handler, which sends its text and disconnects.
\<close>

definition websocket_step ::
  "services \<Rightarrow> settings \<Rightarrow> string \<Rightarrow> message_data \<Rightarrow> endpoint_state
     \<Rightarrow> effect list \<times> endpoint_state" where
  "websocket_step sv cfg connection_id message_data s =
     (if md_type message_data = Some ''initialize_session'' then
        (case create_session (sv_runtime sv) (es_store s) of
           (Inl e, db') \<Rightarrow>
             ([Send (ErrorEvent (exn_str e) None)],
              s\<lparr>es_store := db', es_manager := disconnect (es_manager s) connection_id,
                es_open := False\<rparr>)
         | (Inr sid, db') \<Rightarrow>
             ([Send (SessionInitialized sid)],
              s\<lparr>es_session_id := Some sid,
                es_manager := associate_session (es_manager s) sid connection_id,
                es_store := db'\<rparr>))
      else if md_type message_data = Some ''audio_chunk'' then
        (case handle_audio_chunk sv cfg message_data (es_audio_chunks s) (es_session_id s)
                (es_store s) of
           (effs, chunks', db') \<Rightarrow> (effs, s\<lparr>es_audio_chunks := chunks', es_store := db'\<rparr>))
      else if md_type message_data = Some ''text_message'' then
        (case handle_text_message sv cfg message_data (es_session_id s) (es_store s) of
           (effs, db') \<Rightarrow> (effs, s\<lparr>es_store := db'\<rparr>))
      else if md_type message_data = Some ''end_audio'' then
        (if es_audio_chunks s \<noteq> [] \<and> truthy (es_session_id s)
         then
           (case process_complete_audio sv cfg (es_audio_chunks s) (the (es_session_id s))
                   (es_store s) of
              (effs, db') \<Rightarrow> (effs, s\<lparr>es_audio_chunks := [], es_store := db'\<rparr>))
         else ([], s\<lparr>es_audio_chunks := []\<rparr>))
      else if md_type message_data = Some ''ping'' then ([Send Pong], s)
      else
        ([Send (ErrorEvent
                  (''Unknown message type: ''
                     @ (case md_type message_data of None \<Rightarrow> ''None'' | Some t \<Rightarrow> t))
                  None)], s))"

text \<open>The receive loop over the frames that arrive before the socket closes.\<close>

fun websocket_run ::
  "services \<Rightarrow> settings \<Rightarrow> string \<Rightarrow> message_data list \<Rightarrow> endpoint_state
     \<Rightarrow> effect list \<times> endpoint_state" where
  "websocket_run sv cfg connection_id [] s = ([], s)"
| "websocket_run sv cfg connection_id (message_data # rest) s =
     (case websocket_step sv cfg connection_id message_data s of
        (effs, s') \<Rightarrow>
          if es_open s'
          then (case websocket_run sv cfg connection_id rest s' of
                  (effs', s'') \<Rightarrow> (effs @ effs', s''))
          else (effs, s'))"

subsection \<open>The registry properties of the specification\<close>

definition one_connection_per_session :: "manager \<Rightarrow> bool" where
  "one_connection_per_session m =
     (\<forall>sid c c'. get_connection_by_session m sid = Some c
                 \<and> get_connection_by_session m sid = Some c' \<longrightarrow> c = c')"

definition one_session_per_connection :: "manager \<Rightarrow> bool" where
  "one_session_per_connection m =
     (\<forall>c sid sid'. session_connections m sid = Some c
                   \<and> session_connections m sid' = Some c \<longrightarrow> sid = sid')"

subsection \<open>Acknowledgements\<close>

text \<open>The \<^verbatim>\<open>chunk_number\<close> fields of the acknowledgements among some events, in order.\<close>

fun chunk_numbers :: "event list \<Rightarrow> nat list" where
  "chunk_numbers [] = []"
| "chunk_numbers (AudioChunkReceived n final # evs) = n # chunk_numbers evs"
| "chunk_numbers (ev # evs) = chunk_numbers evs"



subsection \<open>Sample data\<close>

text \<open>
  A runtime whose clock runs forward and whose database delivers rows of equal timestamp
  in insertion order (as SQLite does for this query), a store with one session and three
  messages whose timestamps are not in insertion order, and three chat engines: one that
  answers, one whose call fails, one whose completion carries no content.
\<close>

definition sample_runtime :: runtime where
  "sample_runtime =
     \<lparr>uuid4 = (\<lambda>n. if n = 0 then ''u0'' else if n = 1 then ''u1'' else if n = 2 then ''u2''
                    else ''u3''),
      utcnow = (\<lambda>n. 100 + n),
      order_by_timestamp_desc = (\<lambda>k rows. sort_key (\<lambda>m. - int (m_timestamp m)) rows)\<rparr>"

definition sample_session :: conversation where
  "sample_session =
     \<lparr>c_id = ''s1'', c_status = ACTIVE, c_created_at = 1, c_updated_at = 7\<rparr>"









definition fresh_store :: store where
  "fresh_store =
     \<lparr>conversations = [sample_session], messages = [], uuid_calls = 0, clock_reads = 0\<rparr>"

definition answering_engine :: chat_engine where
  "answering_engine =
     \<lparr>system_prompt = ''You are a helpful assistant'',
      chat_create = (\<lambda>m msgs. Inr \<lparr>choices = [Some ''Hi there''], total_tokens = Some 12\<rparr>)\<rparr>"

definition failing_engine :: chat_engine where
  "failing_engine =
     \<lparr>system_prompt = ''You are a helpful assistant'',
      chat_create = (\<lambda>m msgs. Inl ''Connection error.'')\<rparr>"

definition silent_engine :: chat_engine where
  "silent_engine =
     \<lparr>system_prompt = ''You are a helpful assistant'',
      chat_create = (\<lambda>m msgs. Inr \<lparr>choices = [None], total_tokens = None\<rparr>)\<rparr>"

definition sample_chunk :: bytes where
  "sample_chunk = [82, 73, 70, 70]"

text \<open>
  Services that all succeed: the decoder reports two seconds of audio, the transcription
  is "Hello", the chat engine answers, the speech engine returns three bytes.
\<close>

definition sample_services :: services where
  "sample_services =
     \<lparr>sv_runtime = sample_runtime,
      sv_from_file = (\<lambda>d f. Inr 2000),
      sv_transcribe_audio =
        (\<lambda>a. Inr \<lparr>tr_text = ''Hello'', tr_confidence = Some (9 / 10),
                   tr_language = Some ''en''\<rparr>),
      sv_chat = answering_engine,
      sv_speech = \<lparr>preprocess_text = (\<lambda>t. t), speech_create = (\<lambda>m v t. Inr [1, 2, 3])\<rparr>,
      sv_b64decode = (\<lambda>s. Inr sample_chunk)\<rparr>"

definition initialize_session_msg :: message_data where
  "initialize_session_msg =
     \<lparr>md_type = Some ''initialize_session'', md_audio_data = None, md_is_final = False,
      md_text = None, md_include_audio = False, md_voice = None\<rparr>"







section \<open>Theorems\<close>

subsection \<open>Audio validation\<close>

lemma validate_audio_unsupported:
  "\<not> format_supported st format \<Longrightarrow>
   validate_audio st from_file audio_data format =
     Inl (Exn AudioProcessingError (Some ''UNSUPPORTED_FORMAT'')
            (''Unsupported audio format: '' @ format))"
  by (simp add: validate_audio_def format_supported_def)

lemma validate_audio_oversized:
  "format_supported st format \<Longrightarrow> oversized st audio_data \<Longrightarrow>
   validate_audio st from_file audio_data format =
     Inl (Exn AudioProcessingError (Some ''FILE_TOO_LARGE'') ''Audio file too large'')"
  by (simp add: validate_audio_def format_supported_def oversized_def)

lemma validate_audio_undecodable:
  "format_supported st format \<Longrightarrow> \<not> oversized st audio_data \<Longrightarrow>
   from_file audio_data (lower format) = Inl err \<Longrightarrow>
   validate_audio st from_file audio_data format =
     Inl (Exn AudioProcessingError (Some ''VALIDATION_ERROR'')
            (''Audio validation failed: '' @ err))"
  by (simp add: validate_audio_def format_supported_def oversized_def)

lemma validate_audio_too_long:
  "format_supported st format \<Longrightarrow> \<not> oversized st audio_data \<Longrightarrow>
   from_file audio_data (lower format) = Inr len_ms \<Longrightarrow> 300000 < len_ms \<Longrightarrow>
   validate_audio st from_file audio_data format =
     Inl (Exn AudioProcessingError (Some ''AUDIO_TOO_LONG'') ''Audio too long'')"
  by (simp add: validate_audio_def format_supported_def oversized_def)

lemma validate_audio_Inr:
  "validate_audio st from_file audio_data format = Inr ok \<Longrightarrow>
   format_supported st format \<and> \<not> oversized st audio_data \<and>
   (\<exists>len_ms. from_file audio_data (lower format) = Inr len_ms \<and> len_ms \<le> 300000)"
  by (auto simp: validate_audio_def format_supported_def oversized_def Let_def
           split: if_splits sum.splits)

lemma lower_examples [simp]:
  "lower ''wav'' = ''wav''" "lower ''ogg'' = ''ogg''" "lower ''WAV'' = ''wav''"
  by code_simp+

lemma default_formats [simp]:
  "format_supported default_audio_settings ''wav''"
  "\<not> format_supported default_audio_settings ''ogg''"
  "format_supported default_audio_settings ''WAV''"
  by (simp_all add: format_supported_def default_audio_settings_def)

lemma default_oversized [simp]:
  "oversized default_audio_settings (replicate 26214401 0)"
  "\<not> oversized default_audio_settings (replicate 26214400 0)"
  "\<not> oversized default_audio_settings [1, 2, 3]"
  by (simp_all add: oversized_def default_audio_settings_def)

text \<open>
  C10. The checks of \<open>validate_audio\<close> run in the order format, size, decodability,
  duration: an unsupported declared format gives \<open>UNSUPPORTED_FORMAT\<close> whatever the size
  and the decoder say; with a supported format an oversized input gives \<open>FILE_TOO_LARGE\<close>
  whatever the decoder says; then an undecodable input gives \<open>VALIDATION_ERROR\<close>, then a
  decoded length above 300 seconds gives \<open>AUDIO_TOO_LONG\<close>. An input that passes has a
  supported format, is within the size limit and decodes to at most 300 seconds.
\<close>

theorem validate_audio_check_order:
  "(\<not> format_supported st format \<longrightarrow>
      validation_code (validate_audio st from_file audio_data format)
        = Some ''UNSUPPORTED_FORMAT'')
   \<and> (format_supported st format \<and> oversized st audio_data \<longrightarrow>
      validation_code (validate_audio st from_file audio_data format)
        = Some ''FILE_TOO_LARGE'')
   \<and> (format_supported st format \<and> \<not> oversized st audio_data
        \<and> (\<exists>err. from_file audio_data (lower format) = Inl err) \<longrightarrow>
      validation_code (validate_audio st from_file audio_data format)
        = Some ''VALIDATION_ERROR'')
   \<and> (format_supported st format \<and> \<not> oversized st audio_data
        \<and> (\<exists>len_ms. from_file audio_data (lower format) = Inr len_ms
               \<and> (of_nat len_ms / 1000 :: rat) > 300) \<longrightarrow>
      validation_code (validate_audio st from_file audio_data format)
        = Some ''AUDIO_TOO_LONG'')
   \<and> (\<forall>ok. validate_audio st from_file audio_data format = Inr ok \<longrightarrow>
        format_supported st format \<and> \<not> oversized st audio_data \<and>
        (\<exists>len_ms. from_file audio_data (lower format) = Inr len_ms
           \<and> (of_nat len_ms / 1000 :: rat) \<le> 300))"
proof (intro conjI impI allI)
  assume "\<not> format_supported st format"
  then show "validation_code (validate_audio st from_file audio_data format)
               = Some ''UNSUPPORTED_FORMAT''"
    by (simp add: validate_audio_unsupported validation_code_def)
next
  assume "format_supported st format \<and> oversized st audio_data"
  then show "validation_code (validate_audio st from_file audio_data format)
               = Some ''FILE_TOO_LARGE''"
    by (simp add: validate_audio_oversized validation_code_def)
next
  assume "format_supported st format \<and> \<not> oversized st audio_data
            \<and> (\<exists>err. from_file audio_data (lower format) = Inl err)"
  then show "validation_code (validate_audio st from_file audio_data format)
               = Some ''VALIDATION_ERROR''"
    by (auto simp: validate_audio_undecodable validation_code_def)
next
  assume "format_supported st format \<and> \<not> oversized st audio_data
            \<and> (\<exists>len_ms. from_file audio_data (lower format) = Inr len_ms
                   \<and> (of_nat len_ms / 1000 :: rat) > 300)"
  then show "validation_code (validate_audio st from_file audio_data format)
               = Some ''AUDIO_TOO_LONG''"
    by (auto simp: validate_audio_too_long validation_code_def)
next
  fix ok
  assume h: "validate_audio st from_file audio_data format = Inr ok"
  from validate_audio_Inr [OF h]
  show "format_supported st format" and "\<not> oversized st audio_data"
    and "\<exists>len_ms. from_file audio_data (lower format) = Inr len_ms
           \<and> (of_nat len_ms / 1000 :: rat) \<le> 300"
    by auto
qed

theorem validate_audio_check_order_witness:
  "validation_code (validate_audio default_audio_settings (\<lambda>d f. Inr 400000)
       (replicate 26214401 0) ''ogg'') = Some ''UNSUPPORTED_FORMAT''
   \<and> validation_code (validate_audio default_audio_settings (\<lambda>d f. Inr 400000)
       (replicate 26214401 0) ''wav'') = Some ''FILE_TOO_LARGE''
   \<and> validation_code (validate_audio default_audio_settings (\<lambda>d f. Inl ''bad header'')
       [1, 2, 3] ''wav'') = Some ''VALIDATION_ERROR''
   \<and> validation_code (validate_audio default_audio_settings (\<lambda>d f. Inr 400000)
       [1, 2, 3] ''wav'') = Some ''AUDIO_TOO_LONG''
   \<and> validate_audio default_audio_settings (\<lambda>d f. Inr 2000) [1, 2, 3] ''wav'' = Inr True
   \<and> (\<exists>len_ms. (\<lambda>d f. Inr 2000 :: string + nat) [1, 2, 3 :: 8 word] (lower ''wav'')
          = Inr len_ms \<and> (of_nat len_ms / 1000 :: rat) \<le> 300)"
  using validate_audio_check_order
          [of default_audio_settings "''ogg''" "\<lambda>d f. Inr 400000" "replicate 26214401 0"]
        validate_audio_check_order
          [of default_audio_settings "''wav''" "\<lambda>d f. Inr 400000" "replicate 26214401 0"]
        validate_audio_check_order
          [of default_audio_settings "''wav''" "\<lambda>d f. Inl ''bad header''" "[1, 2, 3]"]
        validate_audio_check_order
          [of default_audio_settings "''wav''" "\<lambda>d f. Inr 400000" "[1, 2, 3]"]
        validate_audio_check_order
          [of default_audio_settings "''wav''" "\<lambda>d f. Inr 2000" "[1, 2, 3]"]
  by (simp add: validate_audio_def default_audio_settings_def validation_code_def)

subsection \<open>Confidence estimation\<close>

lemma binade_numeral:
  "binade (numeral k) q =
     (if 2 \<le> q then binade (pred_numeral k) (q / 2) + 1
      else if q < 1 then binade (pred_numeral k) (q * 2) - 1
      else 0)"
  by (simp add: numeral_eq_Suc)

lemma floor_rat_numeral:
  "\<lfloor>(numeral a / numeral b :: rat)\<rfloor> = numeral a div numeral b"
  using floor_divide_of_int_eq [of "numeral a" "numeral b", where ?'a = rat] by simp

lemmas fl_eval =
  fl_def fl_add_def round_to_ulp_def round_half_even_def nearest_even_def
  binade_numeral floor_rat_numeral pow2_def

text \<open>The literals \<^verbatim>\<open>0.5\<close>, \<^verbatim>\<open>0.2\<close>, \<^verbatim>\<open>0.1\<close>, \<^verbatim>\<open>0.01\<close> as doubles.\<close>

lemma fl_literals:
  "fl (5 / 10) = 1 / 2"
  "fl (2 / 10) = 3602879701896397 / 18014398509481984"
  "fl (1 / 10) = 3602879701896397 / 36028797018963968"
  "fl (1 / 100) = 5764607523034235 / 576460752303423488"
  "fl (1 / 2) = 1 / 2"
  "fl (1 / 5) = 3602879701896397 / 18014398509481984"
  by (simp_all add: fl_eval)

lemma confidence_score_values:
  "confidence_score False False False False = 1 / 2"
  "confidence_score False False False True = 5404319552844595 / 9007199254740992"
  "confidence_score False False True False = 5404319552844595 / 9007199254740992"
  "confidence_score False False True True = 3152519739159347 / 4503599627370496"
  "confidence_score False True False False = 5404319552844595 / 9007199254740992"
  "confidence_score False True False True = 3152519739159347 / 4503599627370496"
  "confidence_score False True True False = 3152519739159347 / 4503599627370496"
  "confidence_score False True True True = 7205759403792793 / 9007199254740992"
  "confidence_score True False False False = 3152519739159347 / 4503599627370496"
  "confidence_score True False False True = 7205759403792793 / 9007199254740992"
  "confidence_score True False True False = 7205759403792793 / 9007199254740992"
  "confidence_score True False True True = 2026619832316723 / 2251799813685248"
  "confidence_score True True False False = 7205759403792793 / 9007199254740992"
  "confidence_score True True False True = 2026619832316723 / 2251799813685248"
  "confidence_score True True True False = 2026619832316723 / 2251799813685248"
  "confidence_score True True True True = 9007199254740991 / 9007199254740992"
  by (simp_all add: confidence_score_def add_if_def fl_literals)
     (simp_all add: fl_eval)

lemma confidence_score_range:
  "0 \<le> confidence_score a b c d \<and> confidence_score a b c d \<le> 1"
  by (cases a; cases b; cases c; cases d) (simp_all add: confidence_score_values)

lemma confidence_score_near_spec:
  "\<bar>confidence_score a b c d - spec_confidence a b c d\<bar> \<le> 1 / 2 ^ 53"
  by (cases a; cases b; cases c; cases d)
     (simp_all add: confidence_score_values spec_confidence_def)

lemma clear_speech_flags:
  "has_text ''hello''" "\<not> has_artifact ''hello''"
  "has_text ''turn it up''" "\<not> has_artifact ''turn it up''"
  "\<not> has_text ''  ''" "has_artifact ''wait... [Inaudible]''"
  by (code_simp+)

lemma clear_signal_flags:
  "good_signal \<lparr>rms_energy = Some (Fin (1 / 2)), silence_ratio = Some (Fin (1 / 4))\<rparr>"
  "little_silence \<lparr>rms_energy = Some (Fin (1 / 2)), silence_ratio = Some (Fin (1 / 4))\<rparr>"
  "\<not> good_signal \<lparr>rms_energy = None, silence_ratio = None\<rparr>"
  "\<not> little_silence \<lparr>rms_energy = None, silence_ratio = None\<rparr>"
  "\<not> good_signal \<lparr>rms_energy = Some NaN, silence_ratio = Some NaN\<rparr>"
  "\<not> little_silence \<lparr>rms_energy = Some NaN, silence_ratio = Some NaN\<rparr>"
  by (simp_all add: good_signal_def little_silence_def get_default_def float_gt_def
        float_lt_def fl_literals)

text \<open>
  C5, as the code has it. The estimator adds the increments as doubles, left to right.
  Its result always lies in the unit interval and is within \<open>2^-53\<close> of the exact sum of the
  specification, where "non-empty" is "non-empty after \<^verbatim>\<open>strip()\<close>" and the marker phrases
  are looked for in the lower-cased text. For non-blank clean text with good signal and
  little silence the result is \<open>1 - 2^-53\<close>, which Python prints as
  \<^verbatim>\<open>0.9999999999999999\<close>; it is not \<^verbatim>\<open>1.0\<close>.
\<close>

theorem estimate_confidence_double:
  "0 \<le> estimate_confidence text af \<and> estimate_confidence text af \<le> 1
   \<and> \<bar>estimate_confidence text af
        - spec_confidence (has_text text) (\<not> has_artifact text)
            (good_signal af) (little_silence af)\<bar> \<le> 1 / 2 ^ 53
   \<and> (has_text text \<and> \<not> has_artifact text \<and> good_signal af \<and> little_silence af
        \<longrightarrow> estimate_confidence text af = 1 - 1 / 2 ^ 53)"
proof (intro conjI impI)
  show "0 \<le> estimate_confidence text af" and "estimate_confidence text af \<le> 1"
    using confidence_score_range by (simp_all add: estimate_confidence_def)
  show "\<bar>estimate_confidence text af
          - spec_confidence (has_text text) (\<not> has_artifact text)
              (good_signal af) (little_silence af)\<bar> \<le> 1 / 2 ^ 53"
    unfolding estimate_confidence_def by (rule confidence_score_near_spec)
next
  assume "has_text text \<and> \<not> has_artifact text \<and> good_signal af \<and> little_silence af"
  then show "estimate_confidence text af = 1 - 1 / 2 ^ 53"
    by (simp add: estimate_confidence_def confidence_score_values)
qed

theorem estimate_confidence_double_witness:
  "has_text ''turn it up'' \<and> \<not> has_artifact ''turn it up''
   \<and> good_signal \<lparr>rms_energy = Some (Fin (1 / 2)), silence_ratio = Some (Fin (1 / 4))\<rparr>
   \<and> little_silence \<lparr>rms_energy = Some (Fin (1 / 2)), silence_ratio = Some (Fin (1 / 4))\<rparr>
   \<and> estimate_confidence ''turn it up''
        \<lparr>rms_energy = Some (Fin (1 / 2)), silence_ratio = Some (Fin (1 / 4))\<rparr>
      = 1 - 1 / 2 ^ 53"
  using estimate_confidence_double
          [of "''turn it up''"
              "\<lparr>rms_energy = Some (Fin (1 / 2)), silence_ratio = Some (Fin (1 / 4))\<rparr>"]
  by (simp add: clear_speech_flags clear_signal_flags)

text \<open>
  The last clause of the specification fails: clean non-empty text, RMS energy 0.5 and silence ratio 0.25
  give \<open>0.5 + 0.2 + 0.1 + 0.1 + 0.1\<close> in doubles, one unit in the last place below 1.
\<close>

theorem estimate_confidence_not_one:
  "has_text ''hello'' \<and> \<not> has_artifact ''hello''
   \<and> good_signal \<lparr>rms_energy = Some (Fin (1 / 2)), silence_ratio = Some (Fin (1 / 4))\<rparr>
   \<and> little_silence \<lparr>rms_energy = Some (Fin (1 / 2)), silence_ratio = Some (Fin (1 / 4))\<rparr>
   \<and> estimate_confidence ''hello''
        \<lparr>rms_energy = Some (Fin (1 / 2)), silence_ratio = Some (Fin (1 / 4))\<rparr>
      = 9007199254740991 / 9007199254740992
   \<and> estimate_confidence ''hello''
        \<lparr>rms_energy = Some (Fin (1 / 2)), silence_ratio = Some (Fin (1 / 4))\<rparr> \<noteq> 1"
  by (simp add: estimate_confidence_def clear_speech_flags clear_signal_flags
        confidence_score_values)

subsection \<open>Speech synthesis\<close>

lemma select_voice_unknown:
  "v \<notin> set available_voices \<Longrightarrow> select_voice st (Some v) = tts_voice st"
  by (simp add: select_voice_def truthy_def Let_def)

lemma select_voice_known:
  "v \<in> set available_voices \<Longrightarrow> select_voice st (Some v) = v"
  by (auto simp: select_voice_def truthy_def Let_def available_voices_def)

lemma select_voice_default: "select_voice st (Some (tts_voice st)) = tts_voice st"
  by (simp add: select_voice_def truthy_def Let_def)

lemma select_voice_None: "select_voice st None = tts_voice st"
  by (simp add: select_voice_def truthy_def Let_def)

lemma synthesize_speech_PStr:
  "length s \<le> 4096 \<Longrightarrow> strip s \<noteq> [] \<Longrightarrow>
   synthesize_speech st engine (PStr s) voice =
     speech_outcome
       (speech_create engine (tts_model st) (select_voice st voice) (preprocess_text engine s))"
  by (simp add: synthesize_speech_def Let_def)

lemma synthesize_speech_same_voice:
  "select_voice st v = select_voice st w \<Longrightarrow>
   synthesize_speech st engine text v = synthesize_speech st engine text w"
  by (simp add: synthesize_speech_def Let_def)

text \<open>
  C8. A voice outside the fixed list is replaced by the configured default: the request
  behaves exactly as a request without a voice and as one for the default voice, the engine
  is called with the default voice, and when the engine delivers audio the synthesis
  succeeds with it. A voice of the list is the one the engine is called with.
\<close>

theorem synthesize_speech_voice:
  "(v \<notin> set available_voices \<longrightarrow>
      synthesize_speech st engine text (Some v) = synthesize_speech st engine text None
      \<and> synthesize_speech st engine text (Some v)
          = synthesize_speech st engine text (Some (tts_voice st))
      \<and> (\<forall>s. text = PStr s \<and> length s \<le> 4096 \<and> strip s \<noteq> [] \<longrightarrow>
            synthesize_speech st engine text (Some v) =
              speech_outcome
                (speech_create engine (tts_model st) (tts_voice st) (preprocess_text engine s)))
      \<and> (\<forall>s audio. text = PStr s \<and> length s \<le> 4096 \<and> strip s \<noteq> [] \<and>
            speech_create engine (tts_model st) (tts_voice st) (preprocess_text engine s)
              = Inr audio \<longrightarrow>
            synthesize_speech st engine text (Some v) = Inr audio))
   \<and> (v \<in> set available_voices \<longrightarrow>
        (\<forall>s. text = PStr s \<and> length s \<le> 4096 \<and> strip s \<noteq> [] \<longrightarrow>
           synthesize_speech st engine text (Some v) =
             speech_outcome
               (speech_create engine (tts_model st) v (preprocess_text engine s))))"
proof (intro conjI impI allI)
  assume u: "v \<notin> set available_voices"
  show "synthesize_speech st engine text (Some v) = synthesize_speech st engine text None"
    by (rule synthesize_speech_same_voice)
       (simp add: select_voice_unknown [OF u] select_voice_None)
  show "synthesize_speech st engine text (Some v)
          = synthesize_speech st engine text (Some (tts_voice st))"
    by (rule synthesize_speech_same_voice)
       (simp add: select_voice_unknown [OF u] select_voice_default)
  show "synthesize_speech st engine text (Some v) =
          speech_outcome
            (speech_create engine (tts_model st) (tts_voice st) (preprocess_text engine s))"
    if "text = PStr s \<and> length s \<le> 4096 \<and> strip s \<noteq> []" for s
    using that by (simp add: synthesize_speech_PStr select_voice_unknown [OF u])
  show "synthesize_speech st engine text (Some v) = Inr audio"
    if "text = PStr s \<and> length s \<le> 4096 \<and> strip s \<noteq> [] \<and>
        speech_create engine (tts_model st) (tts_voice st) (preprocess_text engine s)
          = Inr audio" for s audio
    using that
    by (simp add: synthesize_speech_PStr select_voice_unknown [OF u] speech_outcome_def)
next
  fix s
  assume k: "v \<in> set available_voices"
    and "text = PStr s \<and> length s \<le> 4096 \<and> strip s \<noteq> []"
  then show "synthesize_speech st engine text (Some v) =
          speech_outcome (speech_create engine (tts_model st) v (preprocess_text engine s))"
    by (simp add: synthesize_speech_PStr select_voice_known [OF k])
qed

text \<open>
  An engine that answers with the voice it was asked for, as one byte per character code.
\<close>

lemma strip_hello [simp]: "strip ''Hello there'' = ''Hello there''"
  by code_simp

theorem synthesize_speech_voice_witness:
  "''nonexistent'' \<notin> set available_voices \<and> ''nova'' \<in> set available_voices
   \<and> synthesize_speech default_openai_settings
        \<lparr>preprocess_text = (\<lambda>t. t),
         speech_create = (\<lambda>m v t. Inr (map (\<lambda>c. of_nat (of_char c)) v))\<rparr>
        (PStr ''Hello there'') (Some ''nonexistent'')
      = Inr (map (\<lambda>c. of_nat (of_char c)) ''alloy'')
   \<and> synthesize_speech default_openai_settings
        \<lparr>preprocess_text = (\<lambda>t. t),
         speech_create = (\<lambda>m v t. Inr (map (\<lambda>c. of_nat (of_char c)) v))\<rparr>
        (PStr ''Hello there'') (Some ''nova'')
      = Inr (map (\<lambda>c. of_nat (of_char c)) ''nova'')"
  using synthesize_speech_voice
          [of "''nonexistent''" default_openai_settings
              "\<lparr>preprocess_text = (\<lambda>t. t),
                speech_create = (\<lambda>m v t. Inr (map (\<lambda>c. of_nat (of_char c)) v))\<rparr>"
              "PStr ''Hello there''"]
        synthesize_speech_voice
          [of "''nova''" default_openai_settings
              "\<lparr>preprocess_text = (\<lambda>t. t),
                speech_create = (\<lambda>m v t. Inr (map (\<lambda>c. of_nat (of_char c)) v))\<rparr>"
              "PStr ''Hello there''"]
  by (auto simp: available_voices_def default_openai_settings_def speech_outcome_def)

subsection \<open>Conversation store\<close>

lemma add_message_Inr:
  assumes "add_message rt db session_id message_type content = (Inr message_id, db')"
  shows "\<exists>text. content = Some text \<and> session_exists db session_id
           \<and> message_id \<notin> m_id ` set (messages db)
           \<and> messages db' = messages db @
                [\<lparr>m_id = message_id, m_session_id = session_id, m_type = message_type,
                  m_content = text, m_timestamp = utcnow rt (clock_reads db)\<rparr>]"
  using assms
  by (auto simp: add_message_def Let_def split: if_splits option.splits)

lemma add_message_Inl:
  "add_message rt db session_id message_type content = (Inl e, db')
   \<Longrightarrow> messages db' = messages db"
  by (auto simp: add_message_def Let_def split: if_splits option.splits)

lemma c_id_touch [simp]: "c_id (touch session_id now c) = c_id c"
  by (simp add: touch_def)

lemma add_message_conversations:
  "add_message rt db session_id message_type content = (r, db')
   \<Longrightarrow> session_exists db' sid = session_exists db sid"
  by (auto simp: add_message_def Let_def session_exists_def image_image
           split: if_splits option.splits)









subsection \<open>Chat service\<close>

lemma generate_response_success:
  assumes "generate_response rt sst ost engine message session_id db
             = (Inr (assistant_response, assistant_message_id), db')"
  shows "\<exists>u a reply.
           messages db' = messages db @ [u, a]
           \<and> m_type u = USER \<and> m_content u = message \<and> m_session_id u = session_id
           \<and> m_type a = ASSISTANT \<and> m_content a = reply \<and> m_session_id a = session_id
           \<and> m_id a = assistant_message_id \<and> assistant_response = Some reply"
proof -
  from assms obtain response rest uid db1 where
    u: "add_message rt db session_id USER (Some message) = (Inr uid, db1)" and
    a: "add_message rt db1 session_id ASSISTANT assistant_response
          = (Inr assistant_message_id, db')"
    by (auto simp: generate_response_def Let_def
             split: sum.splits list.splits prod.splits)
  from add_message_Inr [OF u] add_message_Inr [OF a]
  show ?thesis by auto
qed

lemma generate_response_failure:
  assumes "generate_response rt sst ost engine message session_id db = (Inl e, db')"
  shows "messages db' = messages db
         \<or> (\<exists>u. messages db' = messages db @ [u]
                \<and> m_type u = USER \<and> m_content u = message \<and> m_session_id u = session_id)"
  using assms
  by (auto simp: generate_response_def Let_def
           split: sum.splits list.splits prod.splits
           dest!: add_message_Inr add_message_Inl)

lemma generate_response_no_completion:
  assumes "generate_response rt sst ost engine message session_id db = (r, db')"
    and "case chat_create engine (model ost) (chat_messages rt sst engine message session_id db)
         of Inl str_e \<Rightarrow> True | Inr response \<Rightarrow> choices response = []"
  shows "messages db' = messages db \<and> isl r"
  using assms
  by (auto simp: generate_response_def split: sum.splits list.splits)

lemma generate_response_early_failure:
  assumes "generate_response rt sst ost engine message session_id db = (r, db')"
    and "\<not> session_exists db session_id"
  shows "messages db' = messages db \<and> isl r"
  using assms
  by (auto simp: generate_response_def Let_def
           split: sum.splits list.splits prod.splits
           dest!: add_message_Inr add_message_Inl)

lemma generate_response_second_store_fails:
  assumes g: "generate_response rt sst ost engine message session_id db = (r, db')"
    and c: "chat_create engine (model ost) (chat_messages rt sst engine message session_id db)
              = Inr response"
    and ch: "choices response = assistant_response # rest"
    and u: "add_message rt db session_id USER (Some message) = (Inr uid, db1)"
    and a: "isl (fst (add_message rt db1 session_id ASSISTANT assistant_response))"
  shows "isl r \<and> (\<exists>u. messages db' = messages db @ [u] \<and> m_id u = uid
           \<and> m_type u = USER \<and> m_content u = message \<and> m_session_id u = session_id)"
proof -
  obtain x db2 where
    a2: "add_message rt db1 session_id ASSISTANT assistant_response = (x, db2)"
    by (cases "add_message rt db1 session_id ASSISTANT assistant_response")
  with a obtain e where x: "x = Inl e" by (cases x) simp_all
  from g c ch u a2 x have r: "r = Inl (generation_failure (exn_str e))" and d: "db' = db2"
    by (simp_all add: generate_response_def)
  from add_message_Inl [OF a2 [unfolded x]] have "messages db2 = messages db1" .
  with add_message_Inr [OF u] r d show ?thesis by auto
qed

text \<open>
  C3, as the code has it. When \<open>generate_response\<close> succeeds, the store has gained exactly
  the user message and then the assistant message of the turn. When it fails, no assistant
  message has been stored and at most the user message has: a failure after the first
  \<open>add_message\<close> leaves the user message behind, since the two are separate transactions.
  A failure for an unknown session stores nothing, and so does a completion call that
  fails or returns no choice; when the user message has been stored and the assistant
  message is rejected, the call fails and the user message alone has been added.
\<close>

theorem generate_response_persistence:
  "generate_response rt sst ost engine message session_id db = (r, db') \<Longrightarrow>
   (\<forall>reply_opt mid. r = Inr (reply_opt, mid) \<longrightarrow>
      (\<exists>u a reply.
         messages db' = messages db @ [u, a]
         \<and> m_type u = USER \<and> m_content u = message \<and> m_session_id u = session_id
         \<and> m_type a = ASSISTANT \<and> m_content a = reply \<and> m_session_id a = session_id
         \<and> m_id a = mid \<and> reply_opt = Some reply))
   \<and> (\<forall>e. r = Inl e \<longrightarrow>
        (messages db' = messages db
         \<or> (\<exists>u. messages db' = messages db @ [u]
                \<and> m_type u = USER \<and> m_content u = message \<and> m_session_id u = session_id)))
   \<and> (\<not> session_exists db session_id \<longrightarrow> messages db' = messages db \<and> isl r)
   \<and> ((\<exists>str_e. chat_create engine (model ost)
                  (chat_messages rt sst engine message session_id db) = Inl str_e)
        \<longrightarrow> messages db' = messages db \<and> isl r)
   \<and> ((\<exists>response. chat_create engine (model ost)
                  (chat_messages rt sst engine message session_id db) = Inr response
                \<and> choices response = [])
        \<longrightarrow> messages db' = messages db \<and> isl r)
   \<and> (\<forall>response assistant_response rest user_message_id db1.
        chat_create engine (model ost) (chat_messages rt sst engine message session_id db)
          = Inr response
        \<and> choices response = assistant_response # rest
        \<and> add_message rt db session_id USER (Some message) = (Inr user_message_id, db1)
        \<and> isl (fst (add_message rt db1 session_id ASSISTANT assistant_response))
        \<longrightarrow> isl r
            \<and> (\<exists>u. messages db' = messages db @ [u] \<and> m_id u = user_message_id
                   \<and> m_type u = USER \<and> m_content u = message
                   \<and> m_session_id u = session_id))"
proof -
  assume g: "generate_response rt sst ost engine message session_id db = (r, db')"
  have second: "\<forall>response assistant_response rest user_message_id db1.
        chat_create engine (model ost) (chat_messages rt sst engine message session_id db)
          = Inr response
        \<and> choices response = assistant_response # rest
        \<and> add_message rt db session_id USER (Some message) = (Inr user_message_id, db1)
        \<and> isl (fst (add_message rt db1 session_id ASSISTANT assistant_response))
        \<longrightarrow> isl r
            \<and> (\<exists>u. messages db' = messages db @ [u] \<and> m_id u = user_message_id
                   \<and> m_type u = USER \<and> m_content u = message
                   \<and> m_session_id u = session_id)"
    using generate_response_second_store_fails [OF g] by blast
  have early: "messages db' = messages db \<and> isl r"
    if "(\<exists>str_e. chat_create engine (model ost)
                  (chat_messages rt sst engine message session_id db) = Inl str_e)
        \<or> (\<exists>response. chat_create engine (model ost)
                  (chat_messages rt sst engine message session_id db) = Inr response
                \<and> choices response = [])"
    using that by (intro generate_response_no_completion [OF g]) auto
  from g early have first:
    "(\<forall>reply_opt mid. r = Inr (reply_opt, mid) \<longrightarrow>
      (\<exists>u a reply.
         messages db' = messages db @ [u, a]
         \<and> m_type u = USER \<and> m_content u = message \<and> m_session_id u = session_id
         \<and> m_type a = ASSISTANT \<and> m_content a = reply \<and> m_session_id a = session_id
         \<and> m_id a = mid \<and> reply_opt = Some reply))
   \<and> (\<forall>e. r = Inl e \<longrightarrow>
        (messages db' = messages db
         \<or> (\<exists>u. messages db' = messages db @ [u]
                \<and> m_type u = USER \<and> m_content u = message \<and> m_session_id u = session_id)))
   \<and> (\<not> session_exists db session_id \<longrightarrow> messages db' = messages db \<and> isl r)
   \<and> ((\<exists>str_e. chat_create engine (model ost)
                  (chat_messages rt sst engine message session_id db) = Inl str_e)
        \<longrightarrow> messages db' = messages db \<and> isl r)
   \<and> ((\<exists>response. chat_create engine (model ost)
                  (chat_messages rt sst engine message session_id db) = Inr response
                \<and> choices response = [])
        \<longrightarrow> messages db' = messages db \<and> isl r)"
    using generate_response_success [of rt sst ost engine message session_id db _ _ db']
          generate_response_failure [of rt sst ost engine message session_id db _ db']
          generate_response_early_failure [of rt sst ost engine message session_id db r db']
    by blast
  from first second show ?thesis
    by (elim conjE) (intro conjI; assumption)
qed

lemma generation_failure_not_null:
  "generation_failure
     ''Failed to add message: NOT NULL constraint failed: messages.content''
     = Exn GPTServiceError (Some ''RESPONSE_GENERATION_ERROR'')
         ''Failed to generate response: Failed to add message: NOT NULL constraint failed: messages.content''"
  by code_simp

lemma fresh_store_answering:
  "generate_response sample_runtime default_session_settings default_openai_settings
     answering_engine ''Hello'' ''s1'' fresh_store
   = (Inr (Some ''Hi there'', ''u1''),
      \<lparr>conversations = [sample_session\<lparr>c_updated_at := 103\<rparr>],
       messages =
         [\<lparr>m_id = ''u0'', m_session_id = ''s1'', m_type = USER,
           m_content = ''Hello'', m_timestamp = 100\<rparr>,
          \<lparr>m_id = ''u1'', m_session_id = ''s1'', m_type = ASSISTANT,
           m_content = ''Hi there'', m_timestamp = 102\<rparr>],
       uuid_calls = 2, clock_reads = 4\<rparr>)"
  by (simp add: generate_response_def add_message_def session_exists_def Let_def
        fresh_store_def sample_runtime_def sample_session_def answering_engine_def touch_def)

lemma fresh_store_silent:
  "generate_response sample_runtime default_session_settings default_openai_settings
     silent_engine ''Hello'' ''s1'' fresh_store
   = (Inl (Exn GPTServiceError (Some ''RESPONSE_GENERATION_ERROR'')
             ''Failed to generate response: Failed to add message: NOT NULL constraint failed: messages.content''),
      \<lparr>conversations = [sample_session\<lparr>c_updated_at := 101\<rparr>],
       messages =
         [\<lparr>m_id = ''u0'', m_session_id = ''s1'', m_type = USER,
           m_content = ''Hello'', m_timestamp = 100\<rparr>],
       uuid_calls = 2, clock_reads = 4\<rparr>)"
  by (simp add: generate_response_def add_message_def session_exists_def Let_def
        fresh_store_def sample_runtime_def sample_session_def silent_engine_def touch_def
        not_null_violation_def generation_failure_not_null)

theorem generate_response_persistence_witness:
  "messages (snd (generate_response sample_runtime default_session_settings
       default_openai_settings answering_engine ''Hello'' ''s1'' fresh_store))
     = messages fresh_store @
         [\<lparr>m_id = ''u0'', m_session_id = ''s1'', m_type = USER,
           m_content = ''Hello'', m_timestamp = 100\<rparr>,
          \<lparr>m_id = ''u1'', m_session_id = ''s1'', m_type = ASSISTANT,
           m_content = ''Hi there'', m_timestamp = 102\<rparr>]
   \<and> fst (generate_response sample_runtime default_session_settings
       default_openai_settings answering_engine ''Hello'' ''s1'' fresh_store)
     = Inr (Some ''Hi there'', ''u1'')
   \<and> isl (fst (generate_response sample_runtime default_session_settings
       default_openai_settings answering_engine ''Hello'' ''nowhere'' fresh_store))
   \<and> messages (snd (generate_response sample_runtime default_session_settings
       default_openai_settings answering_engine ''Hello'' ''nowhere'' fresh_store))
     = messages fresh_store
   \<and> isl (fst (generate_response sample_runtime default_session_settings
       default_openai_settings silent_engine ''Hello'' ''s1'' fresh_store))
   \<and> length (messages (snd (generate_response sample_runtime default_session_settings
       default_openai_settings silent_engine ''Hello'' ''s1'' fresh_store)))
     \<le> Suc (length (messages fresh_store))
   \<and> messages (snd (generate_response sample_runtime default_session_settings
       default_openai_settings silent_engine ''Hello'' ''s1'' fresh_store))
     = messages fresh_store @
         [\<lparr>m_id = ''u0'', m_session_id = ''s1'', m_type = USER,
           m_content = ''Hello'', m_timestamp = 100\<rparr>]
   \<and> messages (snd (generate_response sample_runtime default_session_settings
       default_openai_settings failing_engine ''Hello'' ''s1'' fresh_store))
     = messages fresh_store"
  using generate_response_persistence [OF fresh_store_answering]
        generate_response_persistence [OF fresh_store_silent]
        generate_response_persistence
          [OF prod.collapse [symmetric],
           of sample_runtime default_session_settings default_openai_settings
              failing_engine "''Hello''" "''s1''" fresh_store]
        generate_response_persistence
          [OF prod.collapse [symmetric],
           of sample_runtime default_session_settings default_openai_settings
              answering_engine "''Hello''" "''nowhere''" fresh_store]
  by (simp add: fresh_store_answering fresh_store_silent)
     (simp add: session_exists_def fresh_store_def sample_session_def failing_engine_def)

text \<open>
  The second half of the specification's atomicity fails: the session exists, the completion call returns a choice
  without content, the user message is stored, the assistant message is rejected, and
  \<open>generate_response\<close> fails with one new message in the store.
\<close>

theorem generate_response_not_atomic:
  "session_exists fresh_store ''s1''
   \<and> messages fresh_store = []
   \<and> isl (fst (generate_response sample_runtime default_session_settings
        default_openai_settings silent_engine ''Hello'' ''s1'' fresh_store))
   \<and> messages (snd (generate_response sample_runtime default_session_settings
        default_openai_settings silent_engine ''Hello'' ''s1'' fresh_store))
      = [\<lparr>m_id = ''u0'', m_session_id = ''s1'', m_type = USER,
          m_content = ''Hello'', m_timestamp = 100\<rparr>]"
  by (simp add: fresh_store_silent)
     (simp add: session_exists_def fresh_store_def sample_session_def)

subsection \<open>Connection registry\<close>

lemma disconnect_clears:
  "session_connections (disconnect m c) sid \<noteq> Some c"
  "active_connections (disconnect m c) c = None"
  by (simp_all add: disconnect_def)

lemma disconnect_keeps:
  "c' \<noteq> c \<Longrightarrow>
   (session_connections (disconnect m c) sid = Some c') = (session_connections m sid = Some c')"
  by (simp add: disconnect_def)

lemma run_registry_snoc: "run_registry (ops @ [x]) = apply_op (run_registry ops) x"
  by (simp add: run_registry_def)

text \<open>
  C4, as the code has it. After any sequence of registry operations every session is
  mapped to at most one connection, since \<open>session_connections\<close> is a dictionary keyed by
  the session. An \<open>InitializeSession\<close> records the new session for the connection and
  removes nothing, so a connection is referenced by every session it has initialised.
  A \<open>Disconnect\<close> removes the connection and every session entry that refers to it and
  leaves the entries of other connections alone.
\<close>

theorem registry_after_any_run:
  "one_connection_per_session (run_registry ops)
   \<and> get_connection_by_session (run_registry (ops @ [InitializeSession c sid])) sid = Some c
   \<and> (\<forall>sid'. sid' \<noteq> sid \<longrightarrow>
         get_connection_by_session (run_registry (ops @ [InitializeSession c sid])) sid'
           = get_connection_by_session (run_registry ops) sid')
   \<and> (\<forall>sid'. get_connection_by_session (run_registry (ops @ [Disconnect c])) sid' \<noteq> Some c)
   \<and> active_connections (run_registry (ops @ [Disconnect c])) c = None
   \<and> (\<forall>c' sid'. c' \<noteq> c \<longrightarrow>
         (get_connection_by_session (run_registry (ops @ [Disconnect c])) sid' = Some c')
           = (get_connection_by_session (run_registry ops) sid' = Some c'))"
  by (auto simp: one_connection_per_session_def get_connection_by_session_def
        run_registry_snoc disconnect_clears disconnect_keeps associate_session_def)

theorem registry_after_any_run_witness:
  "get_connection_by_session
     (run_registry ([Connect ''c1'' 0, Connect ''c2'' 1, InitializeSession ''c2'' ''s2'']
                    @ [InitializeSession ''c1'' ''s1''])) ''s1'' = Some ''c1''
   \<and> get_connection_by_session
       (run_registry ([Connect ''c1'' 0, Connect ''c2'' 1, InitializeSession ''c2'' ''s2'']
                      @ [InitializeSession ''c1'' ''s1''])) ''s2'' = Some ''c2''
   \<and> get_connection_by_session
       (run_registry ([Connect ''c1'' 0, Connect ''c2'' 1, InitializeSession ''c2'' ''s2'',
                       InitializeSession ''c1'' ''s1''] @ [Disconnect ''c1''])) ''s1'' = None
   \<and> get_connection_by_session
       (run_registry ([Connect ''c1'' 0, Connect ''c2'' 1, InitializeSession ''c2'' ''s2'',
                       InitializeSession ''c1'' ''s1''] @ [Disconnect ''c1''])) ''s2''
       = Some ''c2''"
  using registry_after_any_run
          [of "[Connect ''c1'' 0, Connect ''c2'' 1, InitializeSession ''c2'' ''s2'']"
              "''c1''" "''s1''"]
        registry_after_any_run
          [of "[Connect ''c1'' 0, Connect ''c2'' 1, InitializeSession ''c2'' ''s2'',
                InitializeSession ''c1'' ''s1'']" "''c1''" "''s1''"]
  by (simp add: run_registry_def get_connection_by_session_def connect_def disconnect_def
        associate_session_def empty_manager_def)

text \<open>
  The first half of the specification's invariant fails: a connection that initialises a session twice is referenced
  by both sessions, in the registry run and in the endpoint's receive loop alike.
\<close>

theorem two_sessions_one_connection:
  "\<not> one_session_per_connection
       (run_registry [Connect ''c1'' 0, InitializeSession ''c1'' ''s1'',
                      InitializeSession ''c1'' ''s2''])
   \<and> session_connections
       (es_manager (snd (websocket_run sample_services default_settings ''c1''
          [initialize_session_msg, initialize_session_msg]
          (accept_connection empty_manager empty_store 0 ''c1'')))) ''u0'' = Some ''c1''
   \<and> session_connections
       (es_manager (snd (websocket_run sample_services default_settings ''c1''
          [initialize_session_msg, initialize_session_msg]
          (accept_connection empty_manager empty_store 0 ''c1'')))) ''u1'' = Some ''c1''"
proof (intro conjI)
  let ?m = "run_registry [Connect ''c1'' 0, InitializeSession ''c1'' ''s1'',
                          InitializeSession ''c1'' ''s2'']"
  have "session_connections ?m ''s1'' = Some ''c1''"
    and "session_connections ?m ''s2'' = Some ''c1''"
    by (simp_all add: run_registry_def connect_def associate_session_def empty_manager_def)
  moreover have "''s1'' \<noteq> ''s2''" by simp
  ultimately show "\<not> one_session_per_connection ?m"
    unfolding one_session_per_connection_def by blast
next
  have run: "es_manager (snd (websocket_run sample_services default_settings ''c1''
          [initialize_session_msg, initialize_session_msg]
          (accept_connection empty_manager empty_store 0 ''c1'')))
        = associate_session
            (associate_session (connect empty_manager 0 ''c1'') ''u0'' ''c1'') ''u1'' ''c1''"
    by (simp add: websocket_step_def create_session_def session_exists_def Let_def
          initialize_session_msg_def accept_connection_def empty_store_def
          sample_services_def sample_runtime_def)
  show "session_connections
       (es_manager (snd (websocket_run sample_services default_settings ''c1''
          [initialize_session_msg, initialize_session_msg]
          (accept_connection empty_manager empty_store 0 ''c1'')))) ''u0'' = Some ''c1''"
    and "session_connections
       (es_manager (snd (websocket_run sample_services default_settings ''c1''
          [initialize_session_msg, initialize_session_msg]
          (accept_connection empty_manager empty_store 0 ''c1'')))) ''u1'' = Some ''c1''"
    unfolding run by (simp_all add: associate_session_def)
qed

subsection \<open>Streaming turn\<close>


lemma invoked_append [simp]: "invoked (xs @ ys) = invoked xs @ invoked ys"
  by (induction xs rule: invoked.induct) simp_all

lemma Send_in_set_iff: "Send ev \<in> set effs \<longleftrightarrow> ev \<in> set (sent effs)"
  by (induction effs rule: sent.induct) auto

text \<open>
  The pair returned by \<open>generate_response\<close> has length 2 and no \<^verbatim>\<open>strip\<close>: handed to
  \<open>synthesize_speech\<close> as it is, it makes the synthesis fail before the engine is called.
\<close>

lemma synthesize_speech_pair:
  "synthesize_speech st engine (pair_value r) v
     = Inl (synthesis_error ''tuple object has no attribute strip'')"
  by (simp add: synthesize_speech_def pair_value_def Let_def)

lemma error_event_synthesis:
  "error_event (synthesis_error msg)
     = ErrorEvent (''Speech synthesis failed: '' @ msg) (Some ''SYNTHESIS_ERROR'')"
  by (simp add: error_event_def synthesis_error_def is_voice_agent_exception_def)

lemma process_complete_audio_empty:
  "concat chunks = [] \<Longrightarrow> process_complete_audio sv cfg chunks sid db = ([], db)"
  by (simp add: process_complete_audio_def Let_def del: concat_eq_Nil_conv)

lemma process_complete_audio_invalid:
  "concat chunks \<noteq> [] \<Longrightarrow>
   validate_audio (audio cfg) (sv_from_file sv) (concat chunks) ''wav'' = Inl e \<Longrightarrow>
   process_complete_audio sv cfg chunks sid db = ([Send (error_event e)], db)"
  by (simp add: process_complete_audio_def Let_def del: concat_eq_Nil_conv)

lemma process_complete_audio_untranscribed:
  "concat chunks \<noteq> [] \<Longrightarrow>
   validate_audio (audio cfg) (sv_from_file sv) (concat chunks) ''wav'' = Inr ok \<Longrightarrow>
   sv_transcribe_audio sv (concat chunks) = Inl e \<Longrightarrow>
   process_complete_audio sv cfg chunks sid db =
     ([Send TranscriptionStarted, Invoke TranscriptionPort, Send (error_event e)], db)"
  by (simp add: process_complete_audio_def Let_def del: concat_eq_Nil_conv)

lemma process_complete_audio_unanswered:
  "concat chunks \<noteq> [] \<Longrightarrow>
   validate_audio (audio cfg) (sv_from_file sv) (concat chunks) ''wav'' = Inr ok \<Longrightarrow>
   sv_transcribe_audio sv (concat chunks) = Inr tr \<Longrightarrow>
   generate_response (sv_runtime sv) (session cfg) (openai cfg) (sv_chat sv) (tr_text tr)
     sid db = (Inl e, db') \<Longrightarrow>
   process_complete_audio sv cfg chunks sid db =
     ([Send TranscriptionStarted, Invoke TranscriptionPort,
       Send (TranscriptionCompleted (tr_text tr) (tr_confidence tr) (tr_language tr)),
       Send ResponseGenerationStarted, Invoke ResponsePort, Send (error_event e)], db')"
  by (simp add: process_complete_audio_def Let_def del: concat_eq_Nil_conv)

lemma process_complete_audio_answered:
  "concat chunks \<noteq> [] \<Longrightarrow>
   validate_audio (audio cfg) (sv_from_file sv) (concat chunks) ''wav'' = Inr ok \<Longrightarrow>
   sv_transcribe_audio sv (concat chunks) = Inr tr \<Longrightarrow>
   generate_response (sv_runtime sv) (session cfg) (openai cfg) (sv_chat sv) (tr_text tr)
     sid db = (Inr r, db') \<Longrightarrow>
   process_complete_audio sv cfg chunks sid db =
     ([Send TranscriptionStarted, Invoke TranscriptionPort,
       Send (TranscriptionCompleted (tr_text tr) (tr_confidence tr) (tr_language tr)),
       Send ResponseGenerationStarted, Invoke ResponsePort,
       Send (TextResponse (pair_value r)), Send AudioGenerationStarted, Invoke SynthesisPort,
       Send (ErrorEvent ''Speech synthesis failed: tuple object has no attribute strip''
               (Some ''SYNTHESIS_ERROR''))], db')"
  by (simp add: process_complete_audio_def Let_def synthesize_speech_pair
        error_event_synthesis del: concat_eq_Nil_conv)

lemma process_complete_audio_shape:
  assumes ne: "concat chunks \<noteq> []"
  shows "(\<exists>e. process_complete_audio sv cfg chunks sid db = ([Send (error_event e)], db))
   \<or> (\<exists>e. process_complete_audio sv cfg chunks sid db =
          ([Send TranscriptionStarted, Invoke TranscriptionPort, Send (error_event e)], db))
   \<or> (\<exists>(tr :: transcription) e db'. process_complete_audio sv cfg chunks sid db =
          ([Send TranscriptionStarted, Invoke TranscriptionPort,
            Send (TranscriptionCompleted (tr_text tr) (tr_confidence tr) (tr_language tr)),
            Send ResponseGenerationStarted, Invoke ResponsePort, Send (error_event e)], db'))
   \<or> (\<exists>(tr :: transcription) r db'. process_complete_audio sv cfg chunks sid db =
          ([Send TranscriptionStarted, Invoke TranscriptionPort,
            Send (TranscriptionCompleted (tr_text tr) (tr_confidence tr) (tr_language tr)),
            Send ResponseGenerationStarted, Invoke ResponsePort,
            Send (TextResponse (pair_value r)), Send AudioGenerationStarted,
            Invoke SynthesisPort,
            Send (ErrorEvent ''Speech synthesis failed: tuple object has no attribute strip''
                    (Some ''SYNTHESIS_ERROR''))], db'))"
proof -
  show ?thesis
  proof (cases "validate_audio (audio cfg) (sv_from_file sv) (concat chunks) ''wav''")
    case (Inl e)
    from process_complete_audio_invalid [OF ne this]
    have "\<exists>e. process_complete_audio sv cfg chunks sid db = ([Send (error_event e)], db)"
      by (rule exI)
    then show ?thesis by (iprover intro: disjI1 disjI2)
  next
    case v: (Inr ok)
    show ?thesis
    proof (cases "sv_transcribe_audio sv (concat chunks)")
      case (Inl e)
      from process_complete_audio_untranscribed [OF ne v this]
      have "\<exists>e. process_complete_audio sv cfg chunks sid db =
          ([Send TranscriptionStarted, Invoke TranscriptionPort, Send (error_event e)], db)"
        by (rule exI)
      then show ?thesis by (iprover intro: disjI1 disjI2)
    next
      case t: (Inr tr)
      obtain res db' where g: "generate_response (sv_runtime sv) (session cfg) (openai cfg)
          (sv_chat sv) (tr_text tr) sid db = (res, db')"
        by (cases "generate_response (sv_runtime sv) (session cfg) (openai cfg)
          (sv_chat sv) (tr_text tr) sid db") blast
      show ?thesis
      proof (cases res)
        case (Inl e)
        from process_complete_audio_unanswered [OF ne v t g [unfolded Inl]]
        have "\<exists>(tr :: transcription) e db'. process_complete_audio sv cfg chunks sid db =
          ([Send TranscriptionStarted, Invoke TranscriptionPort,
            Send (TranscriptionCompleted (tr_text tr) (tr_confidence tr) (tr_language tr)),
            Send ResponseGenerationStarted, Invoke ResponsePort, Send (error_event e)], db')"
          by (intro exI)
        then show ?thesis by (iprover intro: disjI1 disjI2)
      next
        case (Inr r)
        from process_complete_audio_answered [OF ne v t g [unfolded Inr]]
        have "\<exists>(tr :: transcription) r db'. process_complete_audio sv cfg chunks sid db =
          ([Send TranscriptionStarted, Invoke TranscriptionPort,
            Send (TranscriptionCompleted (tr_text tr) (tr_confidence tr) (tr_language tr)),
            Send ResponseGenerationStarted, Invoke ResponsePort,
            Send (TextResponse (pair_value r)), Send AudioGenerationStarted,
            Invoke SynthesisPort,
            Send (ErrorEvent ''Speech synthesis failed: tuple object has no attribute strip''
                    (Some ''SYNTHESIS_ERROR''))], db')"
          by (intro exI)
        then show ?thesis by (iprover intro: disjI1 disjI2)
      qed
    qed
  qed
qed

lemma event_type_error [simp]: "event_type (error_event e) = ''error''"
  by (simp add: error_event_def)

text \<open>
  The order that the code keeps: the events of a turn are a prefix of the staged order
  followed by exactly one error event, or no event at all when the accumulated audio is
  empty.
\<close>

lemma turn_events_are_prefix_then_error:
  "sent (fst (process_complete_audio sv cfg chunks sid db)) = []
   \<or> (\<exists>k \<le> 5. map event_type (sent (fst (process_complete_audio sv cfg chunks sid db)))
                  = take k staged_order @ [''error''])"
proof -
  have k: "map event_type evs = take k staged_order @ [''error''] \<Longrightarrow> k \<le> 5 \<Longrightarrow>
           evs = [] \<or> (\<exists>k \<le> 5. map event_type evs = take k staged_order @ [''error''])"
    for evs and k :: nat
    by blast
  show ?thesis
  proof (cases "concat chunks = []")
    case True
    then show ?thesis by (simp add: process_complete_audio_empty)
  next
    case False
    from process_complete_audio_shape [OF False, of sv cfg sid db] show ?thesis
  proof (elim disjE exE)
    fix e
    assume "process_complete_audio sv cfg chunks sid db = ([Send (error_event e)], db)"
    then show ?thesis by (intro k [of _ 0]) simp_all
  next
    fix e
    assume "process_complete_audio sv cfg chunks sid db =
          ([Send TranscriptionStarted, Invoke TranscriptionPort, Send (error_event e)], db)"
    then show ?thesis by (intro k [of _ 1]) (simp_all add: staged_order_def)
  next
    fix tr :: transcription and e db'
    assume "process_complete_audio sv cfg chunks sid db =
          ([Send TranscriptionStarted, Invoke TranscriptionPort,
            Send (TranscriptionCompleted (tr_text tr) (tr_confidence tr) (tr_language tr)),
            Send ResponseGenerationStarted, Invoke ResponsePort, Send (error_event e)], db')"
    then show ?thesis by (intro k [of _ 3]) (simp_all add: staged_order_def)
  next
    fix tr :: transcription and r db'
    assume "process_complete_audio sv cfg chunks sid db =
          ([Send TranscriptionStarted, Invoke TranscriptionPort,
            Send (TranscriptionCompleted (tr_text tr) (tr_confidence tr) (tr_language tr)),
            Send ResponseGenerationStarted, Invoke ResponsePort,
            Send (TextResponse (pair_value r)), Send AudioGenerationStarted,
            Invoke SynthesisPort,
            Send (ErrorEvent ''Speech synthesis failed: tuple object has no attribute strip''
                    (Some ''SYNTHESIS_ERROR''))], db')"
    then show ?thesis by (intro k [of _ 5]) (simp_all add: staged_order_def)
  qed
  qed
qed

lemma turn_never_completes:
  "InteractionCompleted \<notin> set (sent (fst (process_complete_audio sv cfg chunks sid db)))"
  "AudioResponse a f \<notin> set (sent (fst (process_complete_audio sv cfg chunks sid db)))"
proof -
  show "InteractionCompleted
          \<notin> set (sent (fst (process_complete_audio sv cfg chunks sid db)))"
  proof (cases "concat chunks = []")
    case True
    then show ?thesis by (simp add: process_complete_audio_empty)
  next
    case False
    from process_complete_audio_shape [OF False, of sv cfg sid db] show ?thesis
      by (elim disjE exE; simp add: error_event_def)
  qed
  show "AudioResponse a f
          \<notin> set (sent (fst (process_complete_audio sv cfg chunks sid db)))"
  proof (cases "concat chunks = []")
    case True
    then show ?thesis by (simp add: process_complete_audio_empty)
  next
    case False
    from process_complete_audio_shape [OF False, of sv cfg sid db] show ?thesis
      by (elim disjE exE; simp add: error_event_def)
  qed
qed


lemma sample_turn:
  "process_complete_audio sample_services default_settings [sample_chunk] ''s1''
     fresh_store
   = ([Send TranscriptionStarted, Invoke TranscriptionPort,
       Send (TranscriptionCompleted ''Hello'' (Some (9 / 10)) (Some ''en'')),
       Send ResponseGenerationStarted, Invoke ResponsePort,
       Send (TextResponse (PTuple [PStr ''Hi there'', PStr ''u1''])),
       Send AudioGenerationStarted, Invoke SynthesisPort,
       Send (ErrorEvent ''Speech synthesis failed: tuple object has no attribute strip''
               (Some ''SYNTHESIS_ERROR''))],
      snd (generate_response sample_runtime default_session_settings
             default_openai_settings answering_engine ''Hello'' ''s1'' fresh_store))"
proof -
  have v: "validate_audio (audio default_settings) (sv_from_file sample_services)
             (concat [sample_chunk]) ''wav'' = Inr True"
    by (simp add: validate_audio_def default_settings_def default_audio_settings_def
          sample_services_def sample_chunk_def)
  have t: "sv_transcribe_audio sample_services (concat [sample_chunk])
             = Inr \<lparr>tr_text = ''Hello'', tr_confidence = Some (9 / 10),
                    tr_language = Some ''en''\<rparr>"
    by (simp add: sample_services_def)
  have g: "generate_response (sv_runtime sample_services) (session default_settings)
             (openai default_settings) (sv_chat sample_services)
             (tr_text \<lparr>tr_text = ''Hello'', tr_confidence = Some (9 / 10),
                       tr_language = Some ''en''\<rparr>) ''s1'' fresh_store
           = (Inr (Some ''Hi there'', ''u1''),
              snd (generate_response sample_runtime default_session_settings
                     default_openai_settings answering_engine ''Hello'' ''s1'' fresh_store))"
    by (simp add: sample_services_def default_settings_def fresh_store_answering)
  have ne: "concat [sample_chunk] \<noteq> []" by (simp add: sample_chunk_def)
  from process_complete_audio_answered [OF ne v t g]
  show ?thesis by (simp add: pair_value_def)
qed

text \<open>
  C1 against the code. No streaming turn ever sends \<^verbatim>\<open>audio_response\<close> or
  \<^verbatim>\<open>interaction_completed\<close>: with valid audio and every service answering, the events are
  the first five staged events followed by an error event with code \<^verbatim>\<open>SYNTHESIS_ERROR\<close>,
  and the speech engine is never reached.
\<close>

theorem streaming_turn_stops_at_synthesis:
  "InteractionCompleted \<notin> set (sent (fst (process_complete_audio sv cfg chunks sid db)))
   \<and> (\<forall>a f. AudioResponse a f
          \<notin> set (sent (fst (process_complete_audio sv cfg chunks sid db))))
   \<and> sent (fst (process_complete_audio sample_services default_settings
                  [sample_chunk] ''s1'' fresh_store))
     = [TranscriptionStarted,
        TranscriptionCompleted ''Hello'' (Some (9 / 10)) (Some ''en''),
        ResponseGenerationStarted,
        TextResponse (PTuple [PStr ''Hi there'', PStr ''u1'']),
        AudioGenerationStarted,
        ErrorEvent ''Speech synthesis failed: tuple object has no attribute strip''
          (Some ''SYNTHESIS_ERROR'')]"
proof (intro conjI allI)
  show "InteractionCompleted
          \<notin> set (sent (fst (process_complete_audio sv cfg chunks sid db)))"
    by (rule turn_never_completes)
  show "AudioResponse a f \<notin> set (sent (fst (process_complete_audio sv cfg chunks sid db)))"
    for a f
    by (rule turn_never_completes)
  have "sent (fst (process_complete_audio sample_services default_settings
                     [sample_chunk] ''s1'' fresh_store))
        = sent [Send TranscriptionStarted, Invoke TranscriptionPort,
                Send (TranscriptionCompleted ''Hello'' (Some (9 / 10)) (Some ''en'')),
                Send ResponseGenerationStarted, Invoke ResponsePort,
                Send (TextResponse (PTuple [PStr ''Hi there'', PStr ''u1''])),
                Send AudioGenerationStarted, Invoke SynthesisPort,
                Send (ErrorEvent
                        ''Speech synthesis failed: tuple object has no attribute strip''
                        (Some ''SYNTHESIS_ERROR''))]"
    by (simp only: sample_turn fst_conv)
  then show "sent (fst (process_complete_audio sample_services default_settings
                  [sample_chunk] ''s1'' fresh_store))
     = [TranscriptionStarted,
        TranscriptionCompleted ''Hello'' (Some (9 / 10)) (Some ''en''),
        ResponseGenerationStarted,
        TextResponse (PTuple [PStr ''Hi there'', PStr ''u1'']),
        AudioGenerationStarted,
        ErrorEvent ''Speech synthesis failed: tuple object has no attribute strip''
          (Some ''SYNTHESIS_ERROR'')]"
    by simp
qed

subsection \<open>Validation before any port\<close>

lemma failed_validation_invokes_nothing:
  assumes "validate_audio (audio cfg) (sv_from_file sv) (concat chunks) ''wav'' = Inl e"
  shows "invoked (fst (process_complete_audio sv cfg chunks sid db)) = []"
    and "snd (process_complete_audio sv cfg chunks sid db) = db"
    and "concat chunks \<noteq> [] \<Longrightarrow>
         process_complete_audio sv cfg chunks sid db = ([Send (error_event e)], db)"
  using assms
  by (cases "concat chunks = []";
      simp add: process_complete_audio_empty process_complete_audio_invalid)+

lemma error_event_too_large:
  "error_event (Exn AudioProcessingError (Some ''FILE_TOO_LARGE'') ''Audio file too large'')
     = ErrorEvent ''Audio file too large'' (Some ''FILE_TOO_LARGE'')"
  by (simp add: error_event_def is_voice_agent_exception_def)

text \<open>
  C7, as the code has it. An input over the size limit never passes validation; it fails
  with \<open>FILE_TOO_LARGE\<close> when its declared format is supported (an unsupported format is
  reported first). A streaming turn whose audio fails validation, for whatever reason,
  invokes no port, leaves the store as it was and sends the one error event; for oversized
  audio under a configuration that supports \<^verbatim>\<open>wav\<close> that event carries \<open>FILE_TOO_LARGE\<close>.
\<close>

theorem oversized_audio_rejected:
  "(format_supported st format \<and> oversized st audio_data \<longrightarrow>
      validate_audio st from_file audio_data format
        = Inl (Exn AudioProcessingError (Some ''FILE_TOO_LARGE'') ''Audio file too large''))
   \<and> (\<not> format_supported st format \<and> oversized st audio_data \<longrightarrow>
        validation_code (validate_audio st from_file audio_data format)
          = Some ''UNSUPPORTED_FORMAT'')
   \<and> (oversized st audio_data \<longrightarrow> isl (validate_audio st from_file audio_data format))
   \<and> (\<forall>e. validate_audio (audio cfg) (sv_from_file sv) (concat chunks) ''wav'' = Inl e \<longrightarrow>
         invoked (fst (process_complete_audio sv cfg chunks sid db)) = []
         \<and> snd (process_complete_audio sv cfg chunks sid db) = db
         \<and> (concat chunks \<noteq> [] \<longrightarrow>
              process_complete_audio sv cfg chunks sid db = ([Send (error_event e)], db)))
   \<and> (format_supported (audio cfg) ''wav'' \<and> oversized (audio cfg) (concat chunks)
        \<and> concat chunks \<noteq> [] \<longrightarrow>
         process_complete_audio sv cfg chunks sid db
           = ([Send (ErrorEvent ''Audio file too large'' (Some ''FILE_TOO_LARGE''))], db))"
proof (intro conjI impI allI)
  assume "format_supported st format \<and> oversized st audio_data"
  then show "validate_audio st from_file audio_data format
        = Inl (Exn AudioProcessingError (Some ''FILE_TOO_LARGE'') ''Audio file too large'')"
    by (simp add: validate_audio_oversized)
next
  assume "\<not> format_supported st format \<and> oversized st audio_data"
  then show "validation_code (validate_audio st from_file audio_data format)
          = Some ''UNSUPPORTED_FORMAT''"
    by (simp add: validate_audio_unsupported validation_code_def)
next
  assume "oversized st audio_data"
  then show "isl (validate_audio st from_file audio_data format)"
    by (cases "format_supported st format")
       (simp_all add: validate_audio_oversized validate_audio_unsupported)
next
  fix e
  assume v: "validate_audio (audio cfg) (sv_from_file sv) (concat chunks) ''wav'' = Inl e"
  show "invoked (fst (process_complete_audio sv cfg chunks sid db)) = []"
    and "snd (process_complete_audio sv cfg chunks sid db) = db"
    by (rule failed_validation_invokes_nothing [OF v])+
  show "process_complete_audio sv cfg chunks sid db = ([Send (error_event e)], db)"
    if "concat chunks \<noteq> []"
    using that by (rule failed_validation_invokes_nothing(3) [OF v])
next
  assume a: "format_supported (audio cfg) ''wav'' \<and> oversized (audio cfg) (concat chunks)
               \<and> concat chunks \<noteq> []"
  then have "validate_audio (audio cfg) (sv_from_file sv) (concat chunks) ''wav''
        = Inl (Exn AudioProcessingError (Some ''FILE_TOO_LARGE'') ''Audio file too large'')"
    by (simp add: validate_audio_oversized)
  from failed_validation_invokes_nothing(3) [OF this] a
  show "process_complete_audio sv cfg chunks sid db
          = ([Send (ErrorEvent ''Audio file too large'' (Some ''FILE_TOO_LARGE''))], db)"
    by (simp add: error_event_too_large)
qed

theorem oversized_audio_rejected_witness:
  "format_supported (audio default_settings) ''wav''
   \<and> oversized (audio default_settings) (concat [replicate 26214401 0])
   \<and> concat [replicate 26214401 (0 :: 8 word)] \<noteq> []
   \<and> validate_audio (audio default_settings) (sv_from_file sample_services)
        (replicate 26214401 0) ''wav''
      = Inl (Exn AudioProcessingError (Some ''FILE_TOO_LARGE'') ''Audio file too large'')
   \<and> process_complete_audio sample_services default_settings [replicate 26214401 0]
        ''s1'' fresh_store
      = ([Send (ErrorEvent ''Audio file too large'' (Some ''FILE_TOO_LARGE''))], fresh_store)
   \<and> invoked (fst (process_complete_audio sample_services default_settings
                      [replicate 26214401 0] ''s1'' fresh_store)) = []
   \<and> validation_code (validate_audio (audio default_settings) (sv_from_file sample_services)
        (replicate 26214401 0) ''ogg'') = Some ''UNSUPPORTED_FORMAT''"
  using oversized_audio_rejected
          [of "audio default_settings" "''wav''" "replicate 26214401 0"
              "sv_from_file sample_services" default_settings sample_services
              "[replicate 26214401 0]" "''s1''" fresh_store]
        oversized_audio_rejected
          [of "audio default_settings" "''ogg''" "replicate 26214401 0"
              "sv_from_file sample_services" default_settings sample_services
              "[replicate 26214401 0]" "''s1''" fresh_store]
  by (simp add: default_settings_def)

text \<open>
  The oversized kind is not what an oversized input gets when its declared format is not
  supported: the format check comes first.
\<close>

theorem oversized_unsupported_format:
  "oversized default_audio_settings (replicate 26214401 0)
   \<and> validate_audio default_audio_settings (\<lambda>d f. Inr 2000) (replicate 26214401 0) ''ogg''
      = Inl (Exn AudioProcessingError (Some ''UNSUPPORTED_FORMAT'')
               ''Unsupported audio format: ogg'')"
  by (simp add: validate_audio_unsupported)

subsection \<open>Audio chunks and their acknowledgements\<close>










lemma chunk_numbers_error [simp]: "chunk_numbers (error_event e # evs) = chunk_numbers evs"
  by (simp add: error_event_def)






subsection \<open>Message dispatch\<close>







end
